theory Spec2Isabelle
  imports Main "HOL-Library.AList" "HOL-Library.Sublist"
begin

section \<open>Configuration and basic types\<close>

text \<open>
  The three modules \<^verbatim>\<open>build_ops.py\<close>, \<^verbatim>\<open>k8s_ops.py\<close> and \<^verbatim>\<open>main.py\<close> are embedded:
  the workspace and git operations, the cluster commands, and the create, build, publish
  and rollback requests with the registry they keep. Strings are byte lists. The
  constants read from the environment take their defaults. Requests are taken one at a
  time: the registry file and the host do not change under a running request.
\<close>

definition GIT_BASE :: string where
  "GIT_BASE = ''/var/git/apps''"

definition REGISTRY_HOST :: string where
  "REGISTRY_HOST = ''localhost:5050''"

definition SERVER_IP :: string where
  "SERVER_IP = ''127.0.0.1''"

definition VALID_TEMPLATES :: "string list" where
  "VALID_TEMPLATES = [''static-site'', ''simple-api'', ''webhook'', ''scheduled-job'']"

text \<open>A directory tree: relative path and content of every regular file.\<close>

type_synonym tree = "(string \<times> string) list"

text \<open>Python exceptions that the three modules raise or let through.\<close>

datatype exn =
    HTTPException nat string
  | ValueError string
  | RuntimeError string
  | BuildError string
  | CalledProcessError "string list" int
  | KeyError string

text \<open>
  The outcome of one external process: exit status, the lines it printed on standard
  output, and its standard error.
\<close>

record proc_result =
  returncode :: int
  stdout :: "string list"
  stderr :: string

record datetime =
  year :: nat
  month :: nat
  day :: nat
  hour :: nat
  minute :: nat
  second :: nat
  microsecond :: nat

text \<open>
  Everything outside the program that one request depends on: what each external
  command does when it is run (\<open>run argv stdin\<close>), what the Jinja manifest
  templates, which are not part of the sources, render to, the wall clock, and the
  Unicode tables behind Python's string predicates.
\<close>

record world =
  run :: "string list \<Rightarrow> string option \<Rightarrow> proc_result"
  render :: "string \<Rightarrow> (string \<times> string) list \<Rightarrow> string"
  utcnow :: datetime
  py_strip :: "string \<Rightarrow> string"
  py_lower :: "string \<Rightarrow> string"
  py_isidentifier :: "string \<Rightarrow> bool"
  py_isalnum :: "char \<Rightarrow> bool"

text \<open>
  One checkout \<^verbatim>\<open>GIT_BASE/<app>-workspace\<close>: the files of the work tree, and what git
  keeps for it. \<open>head\<close> is the history of branch main as the list of committed trees,
  newest first; \<open>origin_main\<close> is the remote-tracking branch in the same form.
\<close>

record workspace =
  worktree :: tree
  is_repo :: bool
  has_origin :: bool
  index :: tree
  head :: "tree list"
  origin_main :: "tree list"

text \<open>
  The host the builder runs on: the template directories under
  \<^verbatim>\<open>APP_TEMPLATES_DIR\<close>, the bare repositories \<^verbatim>\<open>GIT_BASE/<app>.git\<close>, the workspaces,
  and the log of every external command started so far, with its standard input.
\<close>

record host =
  templates :: "string \<rightharpoonup> tree"
  bare_repos :: "string \<rightharpoonup> tree list"
  workspaces :: "string \<rightharpoonup> workspace"
  trace :: "(string list \<times> string option) list"

type_synonym 'a action = "host \<Rightarrow> (exn + 'a) \<times> host"

definition and_then :: "'a action \<Rightarrow> ('a \<Rightarrow> 'b action) \<Rightarrow> 'b action" where
  "and_then m f h = (case m h of (Inl e, h') \<Rightarrow> (Inl e, h') | (Inr x, h') \<Rightarrow> f x h')"

text \<open>A block of statements: the first exception ends it.\<close>

fun run_all :: "unit action list \<Rightarrow> unit action" where
  "run_all [] h = (Inr (), h)"
| "run_all (a # as) h = (case a h of (Inl e, h') \<Rightarrow> (Inl e, h') | (Inr _, h') \<Rightarrow> run_all as h')"

definition subprocess_run :: "world \<Rightarrow> string list \<Rightarrow> string option \<Rightarrow> host \<Rightarrow> proc_result \<times> host" where
  "subprocess_run w argv inp h = (run w argv inp, h\<lparr>trace := trace h @ [(argv, inp)]\<rparr>)"

section \<open>Decimal rendering\<close>

definition digit :: "nat \<Rightarrow> char" where
  "digit n = ''0123456789'' ! (n mod 10)"

function str_nat :: "nat \<Rightarrow> string" where
  "str_nat n = (if n < 10 then [digit n] else str_nat (n div 10) @ [digit n])"
  by pat_completeness auto
termination
  by (relation "measure id") auto

declare str_nat.simps [simp del]

definition str_int :: "int \<Rightarrow> string" where
  "str_int i = (if i < 0 then ''-'' @ str_nat (nat (- i)) else str_nat (nat i))"

text \<open>Zero-padded field of a \<^verbatim>\<open>strftime\<close> pattern.\<close>

definition zpad :: "nat \<Rightarrow> nat \<Rightarrow> string" where
  "zpad k n = replicate (k - length (str_nat n)) (CHR ''0'') @ str_nat n"

fun join :: "string \<Rightarrow> string list \<Rightarrow> string" where
  "join sep [] = []"
| "join sep [x] = x"
| "join sep (x # y # ys) = x @ sep @ join sep (y # ys)"

section \<open>k8s_ops.py\<close>

definition kubectl :: "world \<Rightarrow> string list \<Rightarrow> string option \<Rightarrow> bool \<Rightarrow> proc_result action" where
  "kubectl w args input_text check h =
     (case subprocess_run w (''kubectl'' # args) input_text h of
        (result, h') \<Rightarrow>
          if check \<and> returncode result \<noteq> 0
          then (Inl (RuntimeError (''kubectl '' @ join '' '' args @ '' failed:'' @ [CHR 0x0A] @ stderr result)), h')
          else (Inr result, h'))"

definition kubectl_apply :: "world \<Rightarrow> string \<Rightarrow> unit action" where
  "kubectl_apply w yaml = and_then (kubectl w [''apply'', ''-f'', ''-''] (Some yaml) True) (\<lambda>_ h. (Inr (), h))"

definition create_namespace :: "world \<Rightarrow> string \<Rightarrow> unit action" where
  "create_namespace w name =
     run_all (map (\<lambda>t. kubectl_apply w (render w t [(''app_name'', name)]))
       [''namespace.yaml.j2'', ''quota.yaml.j2'', ''networkpolicy.yaml.j2''])"

definition deploy_app :: "world \<Rightarrow> string \<Rightarrow> string \<Rightarrow> string \<Rightarrow> unit action" where
  "deploy_app w name env version =
     kubectl_apply w (render w ''deployment.yaml.j2''
       [(''app_name'', name), (''env'', env), (''version'', version),
        (''registry_host'', REGISTRY_HOST), (''server_ip'', SERVER_IP)])"

definition image_tag :: "string \<Rightarrow> string \<Rightarrow> string" where
  "image_tag name version = REGISTRY_HOST @ ''/'' @ name @ '':'' @ version"

definition set_image_args :: "string \<Rightarrow> string \<Rightarrow> string \<Rightarrow> string list" where
  "set_image_args name env version =
     [''set'', ''image'', ''deployment/'' @ name @ ''-'' @ env, ''app='' @ image_tag name version,
      ''-n'', ''app-'' @ name]"

definition set_image :: "world \<Rightarrow> string \<Rightarrow> string \<Rightarrow> string \<Rightarrow> unit action" where
  "set_image w name env version =
     and_then (kubectl w (set_image_args name env version) None True) (\<lambda>_ h. (Inr (), h))"

definition rollout_status_args :: "string \<Rightarrow> string \<Rightarrow> nat \<Rightarrow> string list" where
  "rollout_status_args name env timeout =
     [''rollout'', ''status'', ''deployment/'' @ name @ ''-'' @ env, ''-n'', ''app-'' @ name,
      ''--timeout='' @ str_nat timeout @ ''s'']"

definition rollout_status :: "world \<Rightarrow> string \<Rightarrow> string \<Rightarrow> nat \<Rightarrow> bool action" where
  "rollout_status w name env timeout =
     and_then (kubectl w (rollout_status_args name env timeout) None False)
       (\<lambda>result h. (Inr (returncode result = 0), h))"

definition rollout_undo_args :: "string \<Rightarrow> string \<Rightarrow> string list" where
  "rollout_undo_args name env =
     [''rollout'', ''undo'', ''deployment/'' @ name @ ''-'' @ env, ''-n'', ''app-'' @ name]"

definition rollout_undo :: "world \<Rightarrow> string \<Rightarrow> string \<Rightarrow> unit action" where
  "rollout_undo w name env =
     and_then (kubectl w (rollout_undo_args name env) None True) (\<lambda>_ h. (Inr (), h))"

definition create_env_configmap :: "world \<Rightarrow> string \<Rightarrow> (string \<times> string) list \<Rightarrow> unit action" where
  "create_env_configmap w name env_vars =
     and_then
       (kubectl w
          ([''create'', ''configmap'', name @ ''-env'', ''-n'', ''app-'' @ name, ''--save-config'',
            ''--dry-run=client'', ''-o'', ''yaml'']
           @ map (\<lambda>(k, v). ''--from-literal='' @ k @ ''='' @ v) env_vars)
          None True)
       (\<lambda>result. kubectl_apply w (concat (stdout result)))"

definition rb_yaml :: "string \<Rightarrow> string" where
  "rb_yaml name = join [CHR 0x0A]
     ['''',
      ''apiVersion: rbac.authorization.k8s.io/v1'',
      ''kind: RoleBinding'',
      ''metadata:'',
      ''  name: builder-controller-binding'',
      ''  namespace: app-'' @ name,
      ''subjects:'',
      ''- kind: ServiceAccount'',
      ''  name: builder-controller'',
      ''  namespace: builder-system'',
      ''roleRef:'',
      ''  kind: ClusterRole'',
      ''  name: builder-app-manager'',
      ''  apiGroup: rbac.authorization.k8s.io'',
      '''']"

definition grant_builder_access :: "world \<Rightarrow> string \<Rightarrow> unit action" where
  "grant_builder_access w name = kubectl_apply w (rb_yaml name)"

section \<open>The host: directories and git\<close>

definition workspace_path :: "string \<Rightarrow> string" where
  "workspace_path name = GIT_BASE @ ''/'' @ name @ ''-workspace''"

definition repo_path :: "string \<Rightarrow> string" where
  "repo_path name = GIT_BASE @ ''/'' @ name @ ''.git''"

text \<open>Two trees are the same when every path of either has the same content in both.\<close>

definition same_tree :: "tree \<Rightarrow> tree \<Rightarrow> bool" where
  "same_tree a b = list_all (\<lambda>k. map_of a k = map_of b k) (map fst a @ map fst b)"

definition head_tree :: "workspace \<Rightarrow> tree" where
  "head_tree g = (case head g of [] \<Rightarrow> [] | t # _ \<Rightarrow> t)"

definition empty_dir :: workspace where
  "empty_dir = \<lparr>worktree = [], is_repo = False, has_origin = False, index = [], head = [],
     origin_main = []\<rparr>"

text \<open>\<^verbatim>\<open>shutil.rmtree(workspace)\<close> and \<^verbatim>\<open>workspace.mkdir(parents=True)\<close>.\<close>

definition rmtree :: "string \<Rightarrow> host \<Rightarrow> host" where
  "rmtree name h = h\<lparr>workspaces := (workspaces h)(name := None)\<rparr>"

definition mkdir :: "string \<Rightarrow> host \<Rightarrow> host" where
  "mkdir name h = h\<lparr>workspaces := (workspaces h)(name \<mapsto> empty_dir)\<rparr>"

text \<open>
  \<^verbatim>\<open>file_path.parent.mkdir(parents=True, exist_ok=True); file_path.write_text(content)\<close>
  for one entry of the file mapping, and the loop over the mapping's items. File names
  are taken to be normalised relative paths that stay inside the workspace.
\<close>

definition write_text :: "string \<Rightarrow> string \<Rightarrow> workspace \<Rightarrow> workspace" where
  "write_text filename content g = g\<lparr>worktree := AList.update filename content (worktree g)\<rparr>"

fun write_items :: "(string \<times> string) list \<Rightarrow> workspace \<Rightarrow> workspace" where
  "write_items [] g = g"
| "write_items ((filename, content) # items) g = write_items items (write_text filename content g)"

definition on_workspace :: "string \<Rightarrow> (workspace \<Rightarrow> workspace) \<Rightarrow> unit action" where
  "on_workspace name f h =
     (case workspaces h name of
        None \<Rightarrow> (Inr (), h)
      | Some g \<Rightarrow> (Inr (), h\<lparr>workspaces := (workspaces h)(name \<mapsto> f g)\<rparr>))"

text \<open>
  What the git commands the builder uses do to one checkout, as exit status and new
  state. A command run outside a repository exits with 128 and changes nothing.
  \<^item> \<^verbatim>\<open>init -b main\<close> makes the directory a repository.
  \<^item> \<^verbatim>\<open>remote add origin <repo>\<close> fails when the remote is already there.
  \<^item> \<^verbatim>\<open>add .\<close> makes the index equal to the work tree (no ignore rules).
  \<^item> \<^verbatim>\<open>diff --cached --quiet\<close> exits with 1 when the index differs from the tree of
    the current revision, with 0 otherwise.
  \<^item> \<^verbatim>\<open>commit -m <msg>\<close> records the index as the new revision, and fails when there
    is nothing to commit.
  \<^item> \<^verbatim>\<open>reset --hard origin/main\<close> moves the branch, the index and the tracked files to
    the fetched revision; files that were not tracked stay.
\<close>

definition in_repo :: "(workspace \<Rightarrow> int \<times> workspace) \<Rightarrow> workspace \<Rightarrow> int \<times> workspace" where
  "in_repo f g = (if is_repo g then f g else (128, g))"

definition git_init :: "workspace \<Rightarrow> int \<times> workspace" where
  "git_init g = (0, g\<lparr>is_repo := True\<rparr>)"

definition git_remote_add :: "workspace \<Rightarrow> int \<times> workspace" where
  "git_remote_add = in_repo (\<lambda>g. if has_origin g then (3, g) else (0, g\<lparr>has_origin := True\<rparr>))"

definition git_add_all :: "workspace \<Rightarrow> int \<times> workspace" where
  "git_add_all = in_repo (\<lambda>g. (0, g\<lparr>index := worktree g\<rparr>))"

definition git_diff_cached_quiet :: "workspace \<Rightarrow> int \<times> workspace" where
  "git_diff_cached_quiet = in_repo (\<lambda>g. (if same_tree (index g) (head_tree g) then 0 else 1, g))"

definition git_commit :: "workspace \<Rightarrow> int \<times> workspace" where
  "git_commit = in_repo (\<lambda>g.
     if same_tree (index g) (head_tree g) then (1, g) else (0, g\<lparr>head := index g # head g\<rparr>))"

definition git_reset_hard :: "workspace \<Rightarrow> int \<times> workspace" where
  "git_reset_hard = in_repo (\<lambda>g.
     case origin_main g of
       [] \<Rightarrow> (128, g)
     | t # _ \<Rightarrow>
         (0, g\<lparr>head := origin_main g, index := t,
               worktree := filter (\<lambda>(p, _). p \<notin> set (map fst (index g)) \<and> p \<notin> set (map fst t))
                             (worktree g) @ t\<rparr>))"

text \<open>
  Running \<^verbatim>\<open>git -C <workspace> <args>\<close>. The world decides whether the command can run
  at all (a non-zero status there is a failure from outside: no binary, no disk, no
  permission); when it can, the status and the effect are git's.
\<close>

definition git :: "world \<Rightarrow> string \<Rightarrow> string list \<Rightarrow> (workspace \<Rightarrow> int \<times> workspace) \<Rightarrow> bool \<Rightarrow> int action" where
  "git w name args effect check h =
     (let argv = [''git'', ''-C'', workspace_path name] @ args in
      case subprocess_run w argv None h of
        (result, h1) \<Rightarrow>
          (case (if returncode result \<noteq> 0 then (returncode result, h1)
                 else case workspaces h1 name of
                        None \<Rightarrow> (128, h1)
                      | Some g \<Rightarrow> (case effect g of
                          (rc, g') \<Rightarrow> (rc, h1\<lparr>workspaces := (workspaces h1)(name \<mapsto> g')\<rparr>))) of
             (rc, h2) \<Rightarrow>
               if check \<and> rc \<noteq> 0 then (Inl (CalledProcessError argv rc), h2) else (Inr rc, h2)))"

definition git_checked :: "world \<Rightarrow> string \<Rightarrow> string list \<Rightarrow> (workspace \<Rightarrow> int \<times> workspace) \<Rightarrow> unit action" where
  "git_checked w name args effect = and_then (git w name args effect True) (\<lambda>_ h. (Inr (), h))"

text \<open>
  \<^verbatim>\<open>push -u origin main\<close> and \<^verbatim>\<open>fetch origin\<close> also touch the bare repository. A push
  needs a revision to push and a remote whose history the local one extends.
\<close>

definition git_push :: "world \<Rightarrow> string \<Rightarrow> unit action" where
  "git_push w name h =
     (let argv = [''git'', ''-C'', workspace_path name, ''push'', ''-u'', ''origin'', ''main''] in
      case subprocess_run w argv None h of
        (result, h1) \<Rightarrow>
          if returncode result \<noteq> 0 then (Inl (CalledProcessError argv (returncode result)), h1)
          else (case (workspaces h1 name, bare_repos h1 name) of
                  (Some g, Some remote) \<Rightarrow>
                    if is_repo g \<and> has_origin g \<and> head g \<noteq> [] \<and> suffix remote (head g)
                    then (Inr (), h1\<lparr>bare_repos := (bare_repos h1)(name \<mapsto> head g),
                                    workspaces := (workspaces h1)(name \<mapsto> g\<lparr>origin_main := head g\<rparr>)\<rparr>)
                    else (Inl (CalledProcessError argv 1), h1)
                | _ \<Rightarrow> (Inl (CalledProcessError argv 128), h1)))"

definition git_fetch :: "world \<Rightarrow> string \<Rightarrow> unit action" where
  "git_fetch w name h =
     (let argv = [''git'', ''-C'', workspace_path name, ''fetch'', ''origin''] in
      case subprocess_run w argv None h of
        (result, h1) \<Rightarrow>
          if returncode result \<noteq> 0 then (Inl (CalledProcessError argv (returncode result)), h1)
          else (case (workspaces h1 name, bare_repos h1 name) of
                  (Some g, Some remote) \<Rightarrow>
                    if is_repo g \<and> has_origin g
                    then (Inr (), h1\<lparr>workspaces := (workspaces h1)(name \<mapsto> g\<lparr>origin_main := remote\<rparr>)\<rparr>)
                    else (Inl (CalledProcessError argv 128), h1)
                | _ \<Rightarrow> (Inl (CalledProcessError argv 128), h1)))"

section \<open>build_ops.py\<close>

text \<open>\<^verbatim>\<open>strftime("%Y%m%d.%H%M%S")\<close> of the current time, for years of four digits.\<close>

definition make_version :: "datetime \<Rightarrow> string" where
  "make_version now =
     zpad 4 (year now) @ zpad 2 (month now) @ zpad 2 (day now) @ ''.'' @
     zpad 2 (hour now) @ zpad 2 (minute now) @ zpad 2 (second now)"

text \<open>
  \<^verbatim>\<open>git init --bare\<close> on a directory that already holds a repository keeps its history.
\<close>

definition init_git_repo :: "world \<Rightarrow> string \<Rightarrow> unit action" where
  "init_git_repo w name h =
     (let argv = [''git'', ''init'', ''--bare'', repo_path name] in
      case subprocess_run w argv None h of
        (result, h1) \<Rightarrow>
          if returncode result \<noteq> 0 then (Inl (CalledProcessError argv (returncode result)), h1)
          else (Inr (), h1\<lparr>bare_repos := (bare_repos h1)
                  (name \<mapsto> (case bare_repos h1 name of None \<Rightarrow> [] | Some history \<Rightarrow> history))\<rparr>))"

definition scaffold_app :: "world \<Rightarrow> string \<Rightarrow> string \<Rightarrow> unit action" where
  "scaffold_app w name tmpl h =
     (case templates h tmpl of
        None \<Rightarrow> (Inl (ValueError (''Unknown template: '' @ tmpl)), h)
      | Some template_files \<Rightarrow>
          run_all
            [\<lambda>h. (Inr (), if workspaces h name \<noteq> None then rmtree name h else h),
             \<lambda>h. (Inr (), mkdir name h),
             git_checked w name [''init'', ''-b'', ''main''] git_init,
             git_checked w name [''remote'', ''add'', ''origin'', repo_path name] git_remote_add,
             on_workspace name (write_items template_files),
             git_checked w name [''add'', ''.''] git_add_all,
             git_checked w name [''commit'', ''-m'', ''Scaffold '' @ tmpl @ '' for '' @ name] git_commit,
             git_push w name] h)"

definition write_files_to_workspace :: "world \<Rightarrow> string \<Rightarrow> (string \<times> string) list \<Rightarrow> unit action" where
  "write_files_to_workspace w name files h =
     (if workspaces h name = None
      then (Inl (RuntimeError (''Workspace not found: '' @ workspace_path name)), h)
      else and_then
             (run_all
                [on_workspace name (write_items files),
                 git_checked w name [''add'', ''.''] git_add_all])
             (\<lambda>_. and_then (git w name [''diff'', ''--cached'', ''--quiet''] git_diff_cached_quiet False)
               (\<lambda>rc. if rc \<noteq> 0
                  then run_all
                         [git_checked w name [''commit'', ''-m'', ''Update: Claude-generated code''] git_commit,
                          git_push w name]
                  else (\<lambda>h. (Inr (), h)))) h)"

definition checkout_workspace :: "world \<Rightarrow> string \<Rightarrow> unit action" where
  "checkout_workspace w name h =
     run_all
       ((if workspaces h name = None
         then [\<lambda>h. (Inr (), mkdir name h),
               git_checked w name [''init'', ''-b'', ''main''] git_init,
               git_checked w name [''remote'', ''add'', ''origin'', repo_path name] git_remote_add]
         else [])
        @ [git_fetch w name,
           git_checked w name [''reset'', ''--hard'', ''origin/main''] git_reset_hard]) h"

text \<open>The components of a relative path, as \<^verbatim>\<open>Path.parts\<close> gives them.\<close>

fun split_on :: "char \<Rightarrow> string \<Rightarrow> string list" where
  "split_on c [] = [[]]"
| "split_on c (x # xs) =
     (if x = c then [] # split_on c xs
      else case split_on c xs of [] \<Rightarrow> [[x]] | p # ps \<Rightarrow> (x # p) # ps)"

definition parts :: "string \<Rightarrow> string list" where
  "parts p = filter (\<lambda>s. s \<noteq> [] \<and> s \<noteq> ''.'') (split_on (CHR ''/'') p)"

text \<open>Every file of the model can be read, so the \<^verbatim>\<open>except: pass\<close> is never taken.\<close>

definition get_workspace_files :: "string \<Rightarrow> host \<Rightarrow> (string \<times> string) list" where
  "get_workspace_files name h =
     (case workspaces h name of
        None \<Rightarrow> []
      | Some g \<Rightarrow> filter (\<lambda>(rel, _). ''.git'' \<notin> set (parts rel)) (worktree g))"

definition docker_build_argv :: "string \<Rightarrow> string \<Rightarrow> string list" where
  "docker_build_argv name version =
     [''docker'', ''build'', ''--build-arg'', ''APP_NAME='' @ name, ''-t'', image_tag name version,
      workspace_path name]"

definition docker_push_argv :: "string \<Rightarrow> string \<Rightarrow> string list" where
  "docker_push_argv name version = [''docker'', ''push'', image_tag name version]"

definition banner :: "string \<Rightarrow> string \<Rightarrow> string" where
  "banner what img = ''=== '' @ what @ img @ '' ==='' @ [CHR 0x0A]"

definition exit_message :: "string \<Rightarrow> int \<Rightarrow> string" where
  "exit_message what rc = ''docker '' @ what @ '' failed (exit '' @ str_int rc @ '')''"

text \<open>
  The generator \<^verbatim>\<open>build_and_push\<close>: the lines it yields, in order, and the exception
  that ends it, if one does.
\<close>

definition build_and_push :: "world \<Rightarrow> string \<Rightarrow> string \<Rightarrow> host \<Rightarrow> (string list \<times> exn option) \<times> host" where
  "build_and_push w name version h =
     (let img = image_tag name version in
      case checkout_workspace w name h of
        (Inl e, h1) \<Rightarrow> (([], Some e), h1)
      | (Inr _, h1) \<Rightarrow>
          (case subprocess_run w (docker_build_argv name version) None h1 of
             (proc, h2) \<Rightarrow>
               let lines1 = [banner ''Building '' img] @ stdout proc in
               if returncode proc \<noteq> 0
               then ((lines1, Some (BuildError (exit_message ''build'' (returncode proc)))), h2)
               else
                 (case subprocess_run w (docker_push_argv name version) None h2 of
                    (push_proc, h3) \<Rightarrow>
                      let lines2 = lines1 @ [banner ''Pushing '' img] @ stdout push_proc in
                      if returncode push_proc \<noteq> 0
                      then ((lines2, Some (BuildError (exit_message ''push'' (returncode push_proc)))), h3)
                      else ((lines2 @ [banner ''Build complete: '' img], None), h3))))"

section \<open>main.py\<close>

text \<open>
  One entry of the registry file. A version that is \<open>None\<close> stands for a JSON null and
  for a missing key alike: the program reads versions with \<^verbatim>\<open>.get\<close> only.
\<close>

record app_entry =
  app_name :: string
  template :: string
  description :: string
  git_repo :: string
  preview_version :: "string option"
  prod_version :: "string option"
  rollback_version :: "string option"
  preview_url :: string
  prod_url :: string
  created_at :: string
  status :: string

type_synonym registry = "string \<rightharpoonup> app_entry"

record state =
  registry :: registry
  host :: host

definition quoted :: "string \<Rightarrow> string" where
  "quoted name = [CHR 0x27] @ name @ [CHR 0x27]"

text \<open>\<^verbatim>\<open>_get_app\<close>, on the registry as \<^verbatim>\<open>_load_registry\<close> reads it.\<close>

definition get_app :: "string \<Rightarrow> registry \<Rightarrow> exn + app_entry" where
  "get_app name reg =
     (case reg name of
        None \<Rightarrow> Inl (HTTPException 404 (''App '' @ quoted name @ '' not found''))
      | Some entry \<Rightarrow> Inr entry)"

definition app_url :: "string \<Rightarrow> string \<Rightarrow> string" where
  "app_url name env =
     ''http://'' @ name @ (if env = ''preview'' then ''-preview'' else []) @ ''.'' @ SERVER_IP @ ''.nip.io/''"

definition isoformat :: "datetime \<Rightarrow> string" where
  "isoformat now =
     zpad 4 (year now) @ ''-'' @ zpad 2 (month now) @ ''-'' @ zpad 2 (day now) @ ''T'' @
     zpad 2 (hour now) @ '':'' @ zpad 2 (minute now) @ '':'' @ zpad 2 (second now) @
     (if microsecond now = 0 then [] else ''.'' @ zpad 6 (microsecond now)) @ ''+00:00''"

definition new_entry :: "world \<Rightarrow> string \<Rightarrow> string \<Rightarrow> string \<Rightarrow> app_entry" where
  "new_entry w name tmpl descr =
     \<lparr>app_name = name, template = tmpl, description = descr,
      git_repo = ''/var/git/apps/'' @ name @ ''.git'',
      preview_version = None, prod_version = None, rollback_version = None,
      preview_url = app_url name ''preview'', prod_url = app_url name ''prod'',
      created_at = isoformat (utcnow w), status = ''created''\<rparr>"

text \<open>\<^verbatim>\<open>POST /create\<close>. The result is the URL of the redirect.\<close>

definition create_app :: "world \<Rightarrow> string \<Rightarrow> string \<Rightarrow> string \<Rightarrow> state \<Rightarrow> (exn + string) \<times> state" where
  "create_app w raw_name tmpl descr st =
     (let name = map (\<lambda>c. if c = CHR '' '' then CHR ''-'' else c) (py_lower w (py_strip w raw_name)) in
      if \<not> py_isidentifier w name \<and> \<not> list_all (\<lambda>c. py_isalnum w c \<or> c = CHR ''-'') name
      then (Inl (HTTPException 400 ''Invalid app name''), st)
      else if tmpl \<notin> set VALID_TEMPLATES
      then (Inl (HTTPException 400 ''Invalid template''), st)
      else if registry st name \<noteq> None
      then (Inl (HTTPException 409 (''App '' @ quoted name @ '' already exists'')), st)
      else
        (case run_all
                [create_namespace w name,
                 grant_builder_access w name,
                 create_env_configmap w name [(''APP_NAME'', name)],
                 init_git_repo w name,
                 scaffold_app w name tmpl] (host st) of
           (Inl e, h') \<Rightarrow> (Inl e, st\<lparr>host := h'\<rparr>)
         | (Inr _, h') \<Rightarrow>
             (Inr (''/app/'' @ name),
              \<lparr>registry = (registry st)(name \<mapsto> new_entry w name tmpl descr), host = h'\<rparr>)))"

text \<open>
  \<^verbatim>\<open>POST /app/{name}/build\<close>. The worker thread \<^verbatim>\<open>run_build\<close> puts events on a queue; the
  response generator takes them off in the order they were put. The payload of an
  error event is a text, or \<^verbatim>\<open>str(e)\<close> of the exception caught.
\<close>

datatype error_text = Text string | Str_of exn

datatype event = Log string | Done string | Error error_text

text \<open>The JSON payload of one server-sent event of the response.\<close>

datatype sse = Sse_log string | Sse_done string string | Sse_error error_text

definition run_build :: "world \<Rightarrow> string \<Rightarrow> string \<Rightarrow> host \<Rightarrow> event list \<times> host" where
  "run_build w name version h =
     (case build_and_push w name version h of
        ((lines, Some e), h1) \<Rightarrow> (map Log lines @ [Error (Str_of e)], h1)
      | ((lines, None), h1) \<Rightarrow>
          (case and_then (deploy_app w name ''preview'' version)
                  (\<lambda>_. rollout_status w name ''preview'' 90) h1 of
             (Inl e, h2) \<Rightarrow>
               (map Log lines @ [Log (''=== Deploying to preview ==='' @ [CHR 0x0A]), Error (Str_of e)], h2)
           | (Inr ok, h2) \<Rightarrow>
               (map Log lines @ [Log (''=== Deploying to preview ==='' @ [CHR 0x0A]),
                  if ok then Done version else Error (Text ''Rollout timed out'')], h2)))"

text \<open>
  The loop of the response generator over the queue. With nothing left on the queue
  and no terminal event seen, \<^verbatim>\<open>await queue.get()\<close> never returns: that is \<open>None\<close>.
  Otherwise the result is what was sent, the exception that broke the stream if one
  did, and the registry.
\<close>

fun event_stream :: "string \<Rightarrow> event list \<Rightarrow> registry \<Rightarrow> ((sse list \<times> exn option) \<times> registry) option" where
  "event_stream name [] reg = None"
| "event_stream name (Log d # queue) reg =
     (case event_stream name queue reg of
        None \<Rightarrow> None
      | Some ((sent, broke), reg') \<Rightarrow> Some ((Sse_log d # sent, broke), reg'))"
| "event_stream name (Done d # queue) reg =
     (case reg name of
        None \<Rightarrow> Some (([], Some (KeyError name)), reg)
      | Some entry \<Rightarrow>
          Some (([Sse_done d (app_url name ''preview'')], None),
                reg(name \<mapsto> entry\<lparr>preview_version := Some d, status := ''preview''\<rparr>)))"
| "event_stream name (Error d # queue) reg = Some (([Sse_error d], None), reg)"

definition build_app :: "world \<Rightarrow> string \<Rightarrow> state \<Rightarrow> ((exn + sse list \<times> exn option) \<times> state) option" where
  "build_app w name st =
     (case get_app name (registry st) of
        Inl e \<Rightarrow> Some (Inl e, st)
      | Inr app_entry \<Rightarrow>
          (let version = make_version (utcnow w) in
           case run_build w name version (host st) of
             (queue, h') \<Rightarrow>
               (case event_stream name queue (registry st) of
                  None \<Rightarrow> None
                | Some (response, reg') \<Rightarrow> Some (Inr response, \<lparr>registry = reg', host = h'\<rparr>))))"

text \<open>
  \<^verbatim>\<open>POST /app/{name}/publish\<close>. The result of a success is the version and the
  production URL of the JSON response.
\<close>

definition publish_app :: "world \<Rightarrow> string \<Rightarrow> state \<Rightarrow> (exn + string \<times> string) \<times> state" where
  "publish_app w name st =
     (case get_app name (registry st) of
        Inl e \<Rightarrow> (Inl e, st)
      | Inr app_entry \<Rightarrow>
          (case preview_version app_entry of
             None \<Rightarrow> (Inl (HTTPException 400 ''No preview build to publish''), st)
           | Some pv \<Rightarrow>
               if pv = [] then (Inl (HTTPException 400 ''No preview build to publish''), st)
               else
                 (let current_prod = prod_version app_entry in
                  case and_then (deploy_app w name ''prod'' pv)
                         (\<lambda>_. rollout_status w name ''prod'' 90) (host st) of
                    (Inl e, h1) \<Rightarrow> (Inl e, st\<lparr>host := h1\<rparr>)
                  | (Inr ok, h1) \<Rightarrow>
                      if \<not> ok then
                        (case (case current_prod of
                                 None \<Rightarrow> (Inr (), h1)
                               | Some cp \<Rightarrow> if cp = [] then (Inr (), h1) else set_image w name ''prod'' cp h1) of
                           (Inl e, h2) \<Rightarrow> (Inl e, st\<lparr>host := h2\<rparr>)
                         | (Inr _, h2) \<Rightarrow>
                             (Inl (HTTPException 500 ''Prod rollout failed, reverted''), st\<lparr>host := h2\<rparr>))
                      else
                        (Inr (pv, app_url name ''prod''),
                         \<lparr>registry = (registry st)(name \<mapsto> app_entry
                              \<lparr>prod_version := Some pv, rollback_version := current_prod,
                               status := ''published''\<rparr>),
                          host = h1\<rparr>))))"

text \<open>\<^verbatim>\<open>POST /app/{name}/rollback\<close>. The result is the \<^verbatim>\<open>ok\<close> of the JSON response.\<close>

definition rollback_app :: "world \<Rightarrow> string \<Rightarrow> state \<Rightarrow> (exn + bool) \<times> state" where
  "rollback_app w name st =
     (case get_app name (registry st) of
        Inl e \<Rightarrow> (Inl e, st)
      | Inr app_entry \<Rightarrow>
          (case (case rollback_version app_entry of
                   None \<Rightarrow> None
                 | Some rv \<Rightarrow> if rv = [] then None else Some rv) of
             Some rv \<Rightarrow>
               (case and_then (set_image w name ''prod'' rv)
                       (\<lambda>_. rollout_status w name ''prod'' 90) (host st) of
                  (Inl e, h1) \<Rightarrow> (Inl e, st\<lparr>host := h1\<rparr>)
                | (Inr ok, h1) \<Rightarrow>
                    if ok
                    then (Inr ok,
                          \<lparr>registry = (registry st)(name \<mapsto> app_entry
                               \<lparr>prod_version := Some rv, rollback_version := None\<rparr>),
                           host = h1\<rparr>)
                    else (Inr ok, st\<lparr>host := h1\<rparr>))
           | None \<Rightarrow>
               (case and_then (rollout_undo w name ''prod'')
                       (\<lambda>_. rollout_status w name ''prod'' 90) (host st) of
                  (Inl e, h1) \<Rightarrow> (Inl e, st\<lparr>host := h1\<rparr>)
                | (Inr ok, h1) \<Rightarrow> (Inr ok, st\<lparr>host := h1\<rparr>))))"

section \<open>Sequences of requests\<close>

datatype request =
    Create world string string string
  | Build world string
  | Publish world string
  | Rollback world string

text \<open>The state after one request, whatever its response; \<open>None\<close> when it never returns.\<close>

fun handle :: "request \<Rightarrow> state \<Rightarrow> state option" where
  "handle (Create w raw_name tmpl descr) st = Some (snd (create_app w raw_name tmpl descr st))"
| "handle (Build w name) st = map_option snd (build_app w name st)"
| "handle (Publish w name) st = Some (snd (publish_app w name st))"
| "handle (Rollback w name) st = Some (snd (rollback_app w name st))"

fun handle_all :: "request list \<Rightarrow> state \<Rightarrow> state option" where
  "handle_all [] st = Some st"
| "handle_all (r # rs) st = (case handle r st of None \<Rightarrow> None | Some st' \<Rightarrow> handle_all rs st')"

section \<open>Vocabulary of the properties\<close>

text \<open>What the response generator sends for one event of the queue.\<close>

fun payload :: "string \<Rightarrow> event \<Rightarrow> sse" where
  "payload name (Log d) = Sse_log d"
| "payload name (Done d) = Sse_done d (app_url name ''preview'')"
| "payload name (Error d) = Sse_error d"

fun is_log :: "sse \<Rightarrow> bool" where
  "is_log (Sse_log d) = True"
| "is_log (Sse_done d u) = False"
| "is_log (Sse_error d) = False"

definition is_terminal :: "sse \<Rightarrow> bool" where
  "is_terminal x = (\<not> is_log x)"


text \<open>The commands a request started: the part of the log it added.\<close>

definition started :: "host \<Rightarrow> host \<Rightarrow> (string list \<times> string option) list" where
  "started h h' = drop (length (trace h)) (trace h')"

definition deployment_yaml :: "world \<Rightarrow> string \<Rightarrow> string \<Rightarrow> string \<Rightarrow> string" where
  "deployment_yaml w name env version =
     render w ''deployment.yaml.j2''
       [(''app_name'', name), (''env'', env), (''version'', version),
        (''registry_host'', REGISTRY_HOST), (''server_ip'', SERVER_IP)]"

definition apply_cmd :: "string \<Rightarrow> string list \<times> string option" where
  "apply_cmd yaml = ([''kubectl'', ''apply'', ''-f'', ''-''], Some yaml)"

definition kubectl_cmd :: "string list \<Rightarrow> string list \<times> string option" where
  "kubectl_cmd args = (''kubectl'' # args, None)"

definition kubectl_failed :: "string list \<Rightarrow> string \<Rightarrow> exn" where
  "kubectl_failed args err = RuntimeError (''kubectl '' @ join '' '' args @ '' failed:'' @ [CHR 0x0A] @ err)"

text \<open>
  The properties of a registry entry that every request keeps: a version is null or a
  non-empty string, and an entry with the status created has no version at all.
\<close>

definition null_or_nonempty :: "string option \<Rightarrow> bool" where
  "null_or_nonempty v = (case v of None \<Rightarrow> True | Some s \<Rightarrow> s \<noteq> [])"

definition entry_ok :: "app_entry \<Rightarrow> bool" where
  "entry_ok e =
     (null_or_nonempty (preview_version e) \<and> null_or_nonempty (prod_version e) \<and>
      null_or_nonempty (rollback_version e) \<and>
      (if status e = ''created''
       then preview_version e = None \<and> prod_version e = None \<and> rollback_version e = None
       else status e = ''preview'' \<or> status e = ''published''))"

definition registry_ok :: "registry \<Rightarrow> bool" where
  "registry_ok reg = (\<forall>n e. reg n = Some e \<longrightarrow> entry_ok e)"

section \<open>Concrete inputs\<close>

definition quiet :: proc_result where
  "quiet = \<lparr>returncode = 0, stdout = [], stderr = []\<rparr>"

definition broken :: proc_result where
  "broken = \<lparr>returncode = 1, stdout = [], stderr = ''boom''\<rparr>"

definition new_year :: datetime where
  "new_year = \<lparr>year = 2026, month = 1, day = 1, hour = 0, minute = 0, second = 0, microsecond = 0\<rparr>"

text \<open>A world in which exactly the commands that \<open>bad\<close> picks fail.\<close>

definition failing :: "(string list \<Rightarrow> bool) \<Rightarrow> world" where
  "failing bad =
     \<lparr>run = (\<lambda>argv inp. if bad argv then broken else quiet),
      render = (\<lambda>t ctx. t),
      utcnow = new_year,
      py_strip = (\<lambda>s. s), py_lower = (\<lambda>s. s),
      py_isidentifier = (\<lambda>s. s \<noteq> []), py_isalnum = (\<lambda>c. c \<noteq> CHR ''/'')\<rparr>"

definition calm :: world where
  "calm = failing (\<lambda>argv. False)"

definition api_files :: tree where
  "api_files = [(''app.py'', ''print(1)''), (''Dockerfile'', ''FROM python'')]"

definition bare_host :: host where
  "bare_host = \<lparr>templates = [''simple-api'' \<mapsto> api_files], bare_repos = Map.empty,
     workspaces = Map.empty, trace = []\<rparr>"

definition fresh :: state where
  "fresh = \<lparr>registry = Map.empty, host = bare_host\<rparr>"

text \<open>A host with a left-over workspace directory for \<open>demo\<close> and an empty bare repository.\<close>

definition stale_host :: host where
  "stale_host = bare_host\<lparr>bare_repos := [''demo'' \<mapsto> []],
     workspaces := [''demo'' \<mapsto> empty_dir\<lparr>worktree := [(''old.txt'', ''x'')]\<rparr>]\<rparr>"

definition demo_entry :: app_entry where
  "demo_entry = new_entry calm ''demo'' ''simple-api'' ''a demo''"

text \<open>
  An application with version \<open>20260101.000000\<close> in production and a newer build in
  preview, and the same one after the newer build was promoted.
\<close>

definition built_entry :: app_entry where
  "built_entry = demo_entry\<lparr>preview_version := Some ''20260101.010000'',
     prod_version := Some ''20260101.000000'', status := ''preview''\<rparr>"

definition promoted_entry :: app_entry where
  "promoted_entry = demo_entry\<lparr>preview_version := Some ''20260101.010000'',
     prod_version := Some ''20260101.010000'', rollback_version := Some ''20260101.000000'',
     status := ''published''\<rparr>"

definition with_entry :: "app_entry \<Rightarrow> state" where
  "with_entry e = \<lparr>registry = [''demo'' \<mapsto> e], host = bare_host\<rparr>"

text \<open>A workspace for \<open>demo\<close> as a successful scaffold leaves it.\<close>

definition scaffolded :: workspace where
  "scaffolded = \<lparr>worktree = api_files, is_repo = True, has_origin = True, index = api_files,
     head = [api_files], origin_main = [api_files]\<rparr>"

definition demo_host :: host where
  "demo_host = bare_host\<lparr>bare_repos := [''demo'' \<mapsto> [api_files]],
     workspaces := [''demo'' \<mapsto> scaffolded]\<rparr>"

definition demo_state :: state where
  "demo_state = \<lparr>registry = [''demo'' \<mapsto> demo_entry], host = demo_host\<rparr>"

definition is_prefix_of :: "string list \<Rightarrow> string list \<Rightarrow> bool" where
  "is_prefix_of p argv = (take (length p) argv = p)"


text \<open>An action that starts git commands only.\<close>

definition git_only :: "unit action \<Rightarrow> bool" where
  "git_only a = (\<forall>h. \<exists>cmds. trace (snd (a h)) = trace h @ cmds \<and>
     list_all (\<lambda>c. is_prefix_of [''git''] (fst c)) cmds)"

text \<open>The same world an hour later, and the requests of a first release.\<close>

definition later :: world where
  "later = calm\<lparr>utcnow := new_year\<lparr>hour := 1\<rparr>\<rparr>"

definition first_release :: "request list" where
  "first_release = [Create calm ''demo'' ''simple-api'' ''a demo'', Build calm ''demo'', Publish calm ''demo'']"


section \<open>The cluster commands, step by step\<close>

lemma kubectl_apply_eq:
  "kubectl_apply w yaml h =
     (if returncode (run w [''kubectl'', ''apply'', ''-f'', ''-''] (Some yaml)) \<noteq> 0
      then Inl (kubectl_failed [''apply'', ''-f'', ''-''] (stderr (run w [''kubectl'', ''apply'', ''-f'', ''-''] (Some yaml))))
      else Inr (),
      h\<lparr>trace := trace h @ [apply_cmd yaml]\<rparr>)"
  by (simp add: kubectl_apply_def kubectl_def subprocess_run_def and_then_def kubectl_failed_def apply_cmd_def)

lemma deploy_app_eq:
  "deploy_app w name env version = kubectl_apply w (deployment_yaml w name env version)"
  by (simp add: deploy_app_def deployment_yaml_def)

lemma set_image_eq:
  "set_image w name env version h =
     (if returncode (run w (''kubectl'' # set_image_args name env version) None) \<noteq> 0
      then Inl (kubectl_failed (set_image_args name env version)
                 (stderr (run w (''kubectl'' # set_image_args name env version) None)))
      else Inr (),
      h\<lparr>trace := trace h @ [kubectl_cmd (set_image_args name env version)]\<rparr>)"
  by (simp add: set_image_def kubectl_def subprocess_run_def and_then_def kubectl_failed_def kubectl_cmd_def)

lemma rollout_undo_eq:
  "rollout_undo w name env h =
     (if returncode (run w (''kubectl'' # rollout_undo_args name env) None) \<noteq> 0
      then Inl (kubectl_failed (rollout_undo_args name env)
                 (stderr (run w (''kubectl'' # rollout_undo_args name env) None)))
      else Inr (),
      h\<lparr>trace := trace h @ [kubectl_cmd (rollout_undo_args name env)]\<rparr>)"
  by (simp add: rollout_undo_def kubectl_def subprocess_run_def and_then_def kubectl_failed_def kubectl_cmd_def)

lemma rollout_status_eq:
  "rollout_status w name env t h =
     (Inr (returncode (run w (''kubectl'' # rollout_status_args name env t) None) = 0),
      h\<lparr>trace := trace h @ [kubectl_cmd (rollout_status_args name env t)]\<rparr>)"
  by (simp add: rollout_status_def kubectl_def subprocess_run_def and_then_def kubectl_cmd_def)

lemmas k8s_eqs = deploy_app_eq kubectl_apply_eq set_image_eq rollout_undo_eq rollout_status_eq


lemmas inputs = with_entry_def built_entry_def promoted_entry_def demo_entry_def new_entry_def
  calm_def failing_def quiet_def broken_def

lemma make_version_new_year: "make_version new_year = ''20260101.000000''"
  by (simp add: make_version_def new_year_def zpad_def str_nat.simps digit_def)

lemma failing_simps:
  "run (failing bad) argv inp = (if bad argv then broken else quiet)"
  "render (failing bad) t ctx = t"
  "utcnow (failing bad) = new_year"
  by (simp_all add: failing_def)

lemma calm_simps:
  "run calm argv inp = quiet"
  "render calm t ctx = t"
  "utcnow calm = new_year"
  by (simp_all add: calm_def failing_def)

lemma result_simps:
  "returncode quiet = 0" "stdout quiet = []" "stderr quiet = []"
  "returncode broken = 1" "stdout broken = []" "stderr broken = ''boom''"
  by (simp_all add: quiet_def broken_def)

lemmas git_defs = git_def git_checked_def git_push_def git_fetch_def in_repo_def git_init_def
  git_remote_add_def git_add_all_def git_diff_cached_quiet_def git_commit_def git_reset_hard_def
  subprocess_run_def and_then_def same_tree_def head_tree_def mkdir_def rmtree_def on_workspace_def
  write_text_def empty_dir_def

lemma checkout_demo:
  "checkout_workspace calm ''demo'' demo_host =
     (Inr (), demo_host\<lparr>trace :=
        [([''git'', ''-C'', workspace_path ''demo'', ''fetch'', ''origin''], None),
         ([''git'', ''-C'', workspace_path ''demo'', ''reset'', ''--hard'', ''origin/main''], None)]\<rparr>)"
  by (simp add: checkout_workspace_def demo_host_def bare_host_def scaffolded_def git_defs
      calm_simps result_simps api_files_def)

lemma demo_state_simps:
  "registry demo_state = [''demo'' \<mapsto> demo_entry]" "host demo_state = demo_host"
  by (simp_all add: demo_state_def)

lemma started_demo: "started demo_host (demo_host\<lparr>trace := cmds\<rparr>) = cmds"
  by (simp add: started_def demo_host_def bare_host_def)

section \<open>Promotion\<close>

text \<open>
  Claim C2. Promotion needs a preview version: with none, it is refused with the
  response 400 "No preview build to publish" and nothing changes. Whenever it succeeds,
  the entry afterwards has the preview version as production version, the former
  production version as rollback version, and the status published; and it does succeed
  when the manifest is applied and the production rollout becomes ready.
\<close>

theorem publish_app_promotes:
  assumes "registry st name = Some e"
  shows "(preview_version e = None \<longrightarrow>
            publish_app w name st = (Inl (HTTPException 400 ''No preview build to publish''), st)) \<and>
         (\<forall>r st'. publish_app w name st = (Inr r, st') \<longrightarrow>
            preview_version e \<noteq> None \<and>
            registry st' = (registry st)(name \<mapsto> e\<lparr>prod_version := preview_version e,
               rollback_version := prod_version e, status := ''published''\<rparr>)) \<and>
         (\<forall>pv. preview_version e = Some pv \<and> pv \<noteq> [] \<and>
            returncode (run w [''kubectl'', ''apply'', ''-f'', ''-'']
                              (Some (deployment_yaml w name ''prod'' pv))) = 0 \<and>
            returncode (run w (''kubectl'' # rollout_status_args name ''prod'' 90) None) = 0 \<longrightarrow>
            (\<exists>st'. publish_app w name st = (Inr (pv, app_url name ''prod''), st')))"
proof (intro conjI allI impI)
  assume "preview_version e = None"
  with assms show "publish_app w name st = (Inl (HTTPException 400 ''No preview build to publish''), st)"
    by (simp add: publish_app_def get_app_def)
next
  fix r st'
  assume ok: "publish_app w name st = (Inr r, st')"
  with assms show "preview_version e \<noteq> None"
    by (auto simp add: publish_app_def get_app_def split: option.splits)
  from ok assms show "registry st' = (registry st)(name \<mapsto> e\<lparr>prod_version := preview_version e,
               rollback_version := prod_version e, status := ''published''\<rparr>)"
    by (auto simp add: publish_app_def get_app_def Let_def and_then_def k8s_eqs split: option.splits if_splits)
next
  fix pv
  assume "preview_version e = Some pv \<and> pv \<noteq> [] \<and>
            returncode (run w [''kubectl'', ''apply'', ''-f'', ''-'']
                              (Some (deployment_yaml w name ''prod'' pv))) = 0 \<and>
            returncode (run w (''kubectl'' # rollout_status_args name ''prod'' 90) None) = 0"
  with assms show "\<exists>st'. publish_app w name st = (Inr (pv, app_url name ''prod''), st')"
    by (simp add: publish_app_def get_app_def Let_def and_then_def k8s_eqs apply_cmd_def)
qed

theorem publish_app_promotes_witness:
  "registry (with_entry built_entry) ''demo'' = Some built_entry \<and>
   preview_version built_entry = Some ''20260101.010000'' \<and>
   fst (publish_app calm ''demo'' (with_entry built_entry)) = Inr (''20260101.010000'', app_url ''demo'' ''prod'') \<and>
   registry (snd (publish_app calm ''demo'' (with_entry built_entry))) = [''demo'' \<mapsto> promoted_entry]"
proof -
  have e: "registry (with_entry built_entry) ''demo'' = Some built_entry"
    by (simp add: with_entry_def)
  have pv: "preview_version built_entry = Some ''20260101.010000''"
    by (simp add: built_entry_def)
  have rc: "returncode (run calm argv inp) = 0" for argv inp
    by (simp add: inputs)
  from publish_app_promotes [OF e, of calm] pv rc
  obtain st' where run: "publish_app calm ''demo'' (with_entry built_entry) =
      (Inr (''20260101.010000'', app_url ''demo'' ''prod''), st')"
    by auto
  with publish_app_promotes [OF e, of calm]
  have "registry st' = (registry (with_entry built_entry))(''demo'' \<mapsto> built_entry\<lparr>prod_version := preview_version built_entry,
               rollback_version := prod_version built_entry, status := ''published''\<rparr>)"
    by blast
  then have "registry st' = [''demo'' \<mapsto> promoted_entry]"
    by (simp add: with_entry_def built_entry_def promoted_entry_def)
  with e pv run show ?thesis by simp
qed




section \<open>A missing workspace\<close>

text \<open>
  Claim C10. For an application with no workspace directory, the file enumeration
  returns the empty mapping, while writing files raises "Workspace not found" and
  changes nothing.
\<close>

theorem missing_workspace_reported_differently:
  assumes "workspaces h name = None"
  shows "get_workspace_files name h = [] \<and>
         write_files_to_workspace w name files h =
           (Inl (RuntimeError (''Workspace not found: '' @ workspace_path name)), h)"
  using assms
  by (simp add: get_workspace_files_def write_files_to_workspace_def)

theorem missing_workspace_reported_differently_witness:
  "workspaces bare_host ''demo'' = None \<and>
   get_workspace_files ''demo'' bare_host = [] \<and>
   write_files_to_workspace calm ''demo'' [(''app.py'', ''print(2)'')] bare_host =
     (Inl (RuntimeError ''Workspace not found: /var/git/apps/demo-workspace''), bare_host)"
  using missing_workspace_reported_differently [of bare_host "''demo''" calm "[(''app.py'', ''print(2)'')]"]
  by (simp add: bare_host_def workspace_path_def GIT_BASE_def)

section \<open>The build pipeline\<close>

lemma run_build_shape:
  "\<exists>lines t. fst (run_build w name version h) = map Log lines @ [t] \<and>
     (t = Done version \<or> (\<exists>d. t = Error d))"
proof (cases "build_and_push w name version h")
  case (Pair r h1)
  obtain lines x where r: "r = (lines, x)" by (cases r)
  show ?thesis
  proof (cases x)
    case None
    obtain y h2 where d: "and_then (deploy_app w name ''preview'' version)
        (\<lambda>_. rollout_status w name ''preview'' 90) h1 = (y, h2)"
      by (cases "and_then (deploy_app w name ''preview'' version)
        (\<lambda>_. rollout_status w name ''preview'' 90) h1")
    show ?thesis
    proof (cases y)
      case (Inl ex)
      with Pair r None d
      have "fst (run_build w name version h) =
          map Log (lines @ [''=== Deploying to preview ==='' @ [CHR 0x0A]]) @ [Error (Str_of ex)]"
        by (simp add: run_build_def)
      then show ?thesis by blast
    next
      case (Inr ok)
      with Pair r None d
      have "\<exists>t. fst (run_build w name version h) =
          map Log (lines @ [''=== Deploying to preview ==='' @ [CHR 0x0A]]) @ [t] \<and>
          (t = Done version \<or> (\<exists>d. t = Error d))"
        by (cases ok) (simp_all add: run_build_def)
      then show ?thesis by blast
    qed
  next
    case (Some ex)
    with Pair r have "fst (run_build w name version h) = map Log lines @ [Error (Str_of ex)]"
      by (simp add: run_build_def)
    then show ?thesis by blast
  qed
qed

lemma event_stream_logs_then_done:
  "reg name = Some e \<Longrightarrow>
   event_stream name (map Log lines @ [Done d]) reg =
     Some ((map Sse_log lines @ [Sse_done d (app_url name ''preview'')], None),
           reg(name \<mapsto> e\<lparr>preview_version := Some d, status := ''preview''\<rparr>))"
  by (induction lines) simp_all

lemma event_stream_logs_then_error:
  "event_stream name (map Log lines @ [Error d]) reg =
     Some ((map Sse_log lines @ [Sse_error d], None), reg)"
  by (induction lines) simp_all

lemma logs_then_terminal:
  "list_all is_log (map Sse_log lines)"
  by (induction lines) simp_all

lemma no_done_among_logs: "Sse_done v u \<notin> set (map Sse_log lines)"
  by (induction lines) simp_all

lemma build_app_outcome:
  assumes "registry st name = Some e"
    and "run_build w name (make_version (utcnow w)) (host st) = (map Log lines @ [t], h')"
  shows "(t = Done d \<longrightarrow> build_app w name st =
            Some (Inr (map Sse_log lines @ [Sse_done d (app_url name ''preview'')], None),
                  \<lparr>registry = (registry st)(name \<mapsto> e\<lparr>preview_version := Some d, status := ''preview''\<rparr>),
                   host = h'\<rparr>)) \<and>
         (t = Error x \<longrightarrow> build_app w name st =
            Some (Inr (map Sse_log lines @ [Sse_error x], None), \<lparr>registry = registry st, host = h'\<rparr>))"
  using assms
  by (simp add: build_app_def get_app_def event_stream_logs_then_done event_stream_logs_then_error)

text \<open>
  Claim C7. For every build of a registered application, the response stream ends, and
  what is sent is the events of the worker in the order they were produced: log events,
  then exactly one event that is done or error, and nothing after it.
\<close>

theorem build_app_event_stream:
  assumes "registry st name = Some e"
  shows "\<exists>sent st'. build_app w name st = Some (Inr (sent, None), st') \<and>
           sent = map (payload name) (fst (run_build w name (make_version (utcnow w)) (host st))) \<and>
           sent \<noteq> [] \<and> list_all is_log (butlast sent) \<and> is_terminal (last sent)"
proof -
  let ?v = "make_version (utcnow w)"
  obtain queue h' where rb: "run_build w name ?v (host st) = (queue, h')"
    by (cases "run_build w name ?v (host st)")
  from run_build_shape [of w name ?v "host st"] rb
  obtain lines t where q: "queue = map Log lines @ [t]" and t: "t = Done ?v \<or> (\<exists>d. t = Error d)"
    by auto
  have p: "map (payload name) queue = map Sse_log lines @ [payload name t]"
    by (simp add: q comp_def)
  from t show ?thesis
  proof
    assume "t = Done ?v"
    with assms rb q p show ?thesis
      by (simp add: build_app_def get_app_def event_stream_logs_then_done logs_then_terminal is_terminal_def)
  next
    assume "\<exists>d. t = Error d"
    then obtain d where "t = Error d" ..
    with assms rb q p show ?thesis
      by (simp add: build_app_def get_app_def event_stream_logs_then_error logs_then_terminal is_terminal_def)
  qed
qed

theorem build_app_event_stream_witness:
  "registry demo_state ''demo'' = Some demo_entry \<and>
   map_option fst (build_app (failing (is_prefix_of [''docker'', ''push''])) ''demo'' demo_state) =
     Some (Inr ([Sse_log (banner ''Building '' (image_tag ''demo'' ''20260101.000000'')),
                 Sse_log (banner ''Pushing '' (image_tag ''demo'' ''20260101.000000'')),
                 Sse_error (Str_of (BuildError ''docker push failed (exit 1)''))], None)) \<and>
   list_all is_log [Sse_log (banner ''Building '' (image_tag ''demo'' ''20260101.000000'')),
                    Sse_log (banner ''Pushing '' (image_tag ''demo'' ''20260101.000000''))] \<and>
   is_terminal (Sse_error (Str_of (BuildError ''docker push failed (exit 1)'')))"
proof -
  let ?w = "failing (is_prefix_of [''docker'', ''push''])"
  have e: "registry demo_state ''demo'' = Some demo_entry"
    by (simp add: demo_state_simps)
  from build_app_event_stream [OF e, of ?w]
  obtain sent st' where run: "build_app ?w ''demo'' demo_state = Some (Inr (sent, None), st')"
    and sent: "sent = map (payload ''demo'') (fst (run_build ?w ''demo'' (make_version (utcnow ?w)) (host demo_state)))"
    and shape: "list_all is_log (butlast sent)" "is_terminal (last sent)"
    by blast
  have co: "checkout_workspace ?w ''demo'' demo_host =
     (Inr (), demo_host\<lparr>trace :=
        [([''git'', ''-C'', workspace_path ''demo'', ''fetch'', ''origin''], None),
         ([''git'', ''-C'', workspace_path ''demo'', ''reset'', ''--hard'', ''origin/main''], None)]\<rparr>)"
    by (simp add: checkout_workspace_def demo_host_def bare_host_def scaffolded_def git_defs
      failing_simps result_simps api_files_def is_prefix_of_def)
  have "sent = [Sse_log (banner ''Building '' (image_tag ''demo'' ''20260101.000000'')),
                 Sse_log (banner ''Pushing '' (image_tag ''demo'' ''20260101.000000'')),
                 Sse_error (Str_of (BuildError ''docker push failed (exit 1)''))]"
    unfolding sent
    by (simp add: demo_state_simps run_build_def build_and_push_def co
      make_version_new_year subprocess_run_def failing_simps result_simps Let_def
      is_prefix_of_def docker_build_argv_def docker_push_argv_def exit_message_def str_int_def
      str_nat.simps digit_def)
  with e run shape show ?thesis by simp
qed

text \<open>
  Claim C1. Whenever a build sends the done event, the version in it is the version of
  this build, and the registry entry afterwards has it as preview version, with the
  status \<^verbatim>\<open>preview\<close> (the program's name for the built-preview state). The done event
  is sent when the sync, the image build, the image push and the apply succeed and the
  preview rollout becomes ready.
\<close>

theorem build_app_records_preview:
  assumes "registry st name = Some e"
  shows "(\<forall>sent broke st' v u.
            build_app w name st = Some (Inr (sent, broke), st') \<and> Sse_done v u \<in> set sent \<longrightarrow>
            v = make_version (utcnow w) \<and>
            registry st' = (registry st)(name \<mapsto> e\<lparr>preview_version := Some v, status := ''preview''\<rparr>)) \<and>
         (\<forall>h1. checkout_workspace w name (host st) = (Inr (), h1) \<and>
            returncode (run w (docker_build_argv name (make_version (utcnow w))) None) = 0 \<and>
            returncode (run w (docker_push_argv name (make_version (utcnow w))) None) = 0 \<and>
            returncode (run w [''kubectl'', ''apply'', ''-f'', ''-'']
              (Some (deployment_yaml w name ''preview'' (make_version (utcnow w))))) = 0 \<and>
            returncode (run w (''kubectl'' # rollout_status_args name ''preview'' 90) None) = 0 \<longrightarrow>
            (\<exists>sent st'. build_app w name st = Some (Inr (sent, None), st') \<and>
               last sent = Sse_done (make_version (utcnow w)) (app_url name ''preview'') \<and>
               registry st' = (registry st)(name \<mapsto> e\<lparr>preview_version := Some (make_version (utcnow w)),
                 status := ''preview''\<rparr>)))"
proof (intro conjI allI impI)
  fix sent broke st' v u
  let ?v = "make_version (utcnow w)"
  assume a: "build_app w name st = Some (Inr (sent, broke), st') \<and> Sse_done v u \<in> set sent"
  obtain queue h' where rb: "run_build w name ?v (host st) = (queue, h')"
    by (cases "run_build w name ?v (host st)")
  from run_build_shape [of w name ?v "host st"] rb
  obtain lines t where q: "queue = map Log lines @ [t]" and t: "t = Done ?v \<or> (\<exists>d. t = Error d)"
    by auto
  from t have "v = ?v \<and> registry st' = (registry st)(name \<mapsto> e\<lparr>preview_version := Some v, status := ''preview''\<rparr>)"
  proof
    assume "t = Done ?v"
    with build_app_outcome [OF assms rb [unfolded q], of ?v] a
    show ?thesis by (auto simp add: no_done_among_logs)
  next
    assume "\<exists>d. t = Error d"
    then obtain d where "t = Error d" ..
    with build_app_outcome [OF assms rb [unfolded q], of _ d] a
    show ?thesis by (auto simp add: no_done_among_logs)
  qed
  then show "v = ?v"
    and "registry st' = (registry st)(name \<mapsto> e\<lparr>preview_version := Some v, status := ''preview''\<rparr>)"
    by simp_all
next
  fix h1
  let ?v = "make_version (utcnow w)"
  let ?img = "image_tag name ?v"
  assume a: "checkout_workspace w name (host st) = (Inr (), h1) \<and>
            returncode (run w (docker_build_argv name ?v) None) = 0 \<and>
            returncode (run w (docker_push_argv name ?v) None) = 0 \<and>
            returncode (run w [''kubectl'', ''apply'', ''-f'', ''-'']
              (Some (deployment_yaml w name ''preview'' ?v))) = 0 \<and>
            returncode (run w (''kubectl'' # rollout_status_args name ''preview'' 90) None) = 0"
  let ?lines = "[banner ''Building '' ?img] @ stdout (run w (docker_build_argv name ?v) None) @
      [banner ''Pushing '' ?img] @ stdout (run w (docker_push_argv name ?v) None) @
      [banner ''Build complete: '' ?img, ''=== Deploying to preview ==='' @ [CHR 0x0A]]"
  from a have "\<exists>h'. run_build w name ?v (host st) = (map Log ?lines @ [Done ?v], h')"
    by (simp add: run_build_def build_and_push_def subprocess_run_def Let_def and_then_def k8s_eqs)
  then obtain h' where rb: "run_build w name ?v (host st) = (map Log ?lines @ [Done ?v], h')" ..
  from build_app_outcome [OF assms rb, of ?v]
  show "\<exists>sent st'. build_app w name st = Some (Inr (sent, None), st') \<and>
               last sent = Sse_done ?v (app_url name ''preview'') \<and>
               registry st' = (registry st)(name \<mapsto> e\<lparr>preview_version := Some ?v,
                 status := ''preview''\<rparr>)"
    by simp
qed

theorem build_app_records_preview_witness:
  "registry demo_state ''demo'' = Some demo_entry \<and>
   map_option fst (build_app calm ''demo'' demo_state) =
     Some (Inr ([Sse_log (banner ''Building '' (image_tag ''demo'' ''20260101.000000'')),
                 Sse_log (banner ''Pushing '' (image_tag ''demo'' ''20260101.000000'')),
                 Sse_log (banner ''Build complete: '' (image_tag ''demo'' ''20260101.000000'')),
                 Sse_log (''=== Deploying to preview ==='' @ [CHR 0x0A]),
                 Sse_done ''20260101.000000'' (app_url ''demo'' ''preview'')], None)) \<and>
   map_option (registry \<circ> snd) (build_app calm ''demo'' demo_state) =
     Some [''demo'' \<mapsto> demo_entry\<lparr>preview_version := Some ''20260101.000000'', status := ''preview''\<rparr>]"
proof -
  have e: "registry demo_state ''demo'' = Some demo_entry"
    by (simp add: demo_state_simps)
  have sent: "map_option fst (build_app calm ''demo'' demo_state) =
     Some (Inr ([Sse_log (banner ''Building '' (image_tag ''demo'' ''20260101.000000'')),
                 Sse_log (banner ''Pushing '' (image_tag ''demo'' ''20260101.000000'')),
                 Sse_log (banner ''Build complete: '' (image_tag ''demo'' ''20260101.000000'')),
                 Sse_log (''=== Deploying to preview ==='' @ [CHR 0x0A]),
                 Sse_done ''20260101.000000'' (app_url ''demo'' ''preview'')], None))"
    by (simp add: build_app_def get_app_def demo_state_simps run_build_def build_and_push_def checkout_demo
      make_version_new_year k8s_eqs and_then_def subprocess_run_def calm_simps result_simps Let_def)
  then obtain st' where run: "build_app calm ''demo'' demo_state =
     Some (Inr ([Sse_log (banner ''Building '' (image_tag ''demo'' ''20260101.000000'')),
                 Sse_log (banner ''Pushing '' (image_tag ''demo'' ''20260101.000000'')),
                 Sse_log (banner ''Build complete: '' (image_tag ''demo'' ''20260101.000000'')),
                 Sse_log (''=== Deploying to preview ==='' @ [CHR 0x0A]),
                 Sse_done ''20260101.000000'' (app_url ''demo'' ''preview'')], None), st')"
    by auto
  with build_app_records_preview [OF e, of calm]
  have "registry st' = (registry demo_state)(''demo'' \<mapsto>
      demo_entry\<lparr>preview_version := Some ''20260101.000000'', status := ''preview''\<rparr>)"
    by simp
  with e sent run show ?thesis by (simp add: demo_state_simps)
qed

subsection \<open>A failed image build\<close>

lemma git_only_run_all:
  "list_all git_only as \<Longrightarrow> git_only (run_all as)"
proof (induction as)
  case Nil
  show ?case by (simp add: git_only_def)
next
  case (Cons a as)
  then have a: "git_only a" and as: "git_only (run_all as)" by simp_all
  show ?case unfolding git_only_def
  proof
    fix h
    obtain r h' where ah: "a h = (r, h')" by (cases "a h")
    from a ah obtain c1 where c1: "trace h' = trace h @ c1"
        "list_all (\<lambda>c. is_prefix_of [''git''] (fst c)) c1"
      unfolding git_only_def by (metis snd_conv)
    show "\<exists>cmds. trace (snd (run_all (a # as) h)) = trace h @ cmds \<and>
        list_all (\<lambda>c. is_prefix_of [''git''] (fst c)) cmds"
    proof (cases r)
      case (Inl ex)
      with ah c1 show ?thesis by auto
    next
      case (Inr u)
      from as obtain c2 where c2: "trace (snd (run_all as h')) = trace h' @ c2"
          "list_all (\<lambda>c. is_prefix_of [''git''] (fst c)) c2"
        unfolding git_only_def by blast
      with Inr ah c1 show ?thesis by auto
    qed
  qed
qed

lemma git_only_git_checked: "git_only (git_checked w name args effect)"
  unfolding git_only_def
  by (auto simp add: git_checked_def git_def and_then_def subprocess_run_def is_prefix_of_def
      Let_def split: option.splits prod.splits)

lemma git_only_git_fetch: "git_only (git_fetch w name)"
  unfolding git_only_def
  by (auto simp add: git_fetch_def subprocess_run_def is_prefix_of_def Let_def
      split: option.splits prod.splits)

lemma git_only_mkdir: "git_only (\<lambda>h. (Inr (), mkdir name h))"
  unfolding git_only_def by (simp add: mkdir_def)

lemma checkout_workspace_git_only:
  "\<exists>cmds. trace (snd (checkout_workspace w name h)) = trace h @ cmds \<and>
     list_all (\<lambda>c. is_prefix_of [''git''] (fst c)) cmds"
proof -
  have "git_only (run_all
       ((if workspaces h name = None
         then [\<lambda>h. (Inr (), mkdir name h),
               git_checked w name [''init'', ''-b'', ''main''] git_init,
               git_checked w name [''remote'', ''add'', ''origin'', repo_path name] git_remote_add]
         else [])
        @ [git_fetch w name,
           git_checked w name [''reset'', ''--hard'', ''origin/main''] git_reset_hard]))"
    by (rule git_only_run_all) (simp add: git_only_git_checked git_only_git_fetch git_only_mkdir)
  then show ?thesis
    unfolding git_only_def checkout_workspace_def by blast
qed

text \<open>
  Claim C5. When the workspace was synced and the image build exits with a non-zero
  status, the stream ends with the error event of the build error, the registry is what
  it was before (so the preview version is not advanced), and the only commands started
  are the git commands of the sync and the image build itself: no push, no deployment.
\<close>

theorem build_failure_changes_nothing:
  assumes "registry st name = Some e"
    and "checkout_workspace w name (host st) = (Inr (), h1)"
    and "returncode (run w (docker_build_argv name (make_version (utcnow w))) None) \<noteq> 0"
  shows "\<exists>sent st'. build_app w name st = Some (Inr (sent, None), st') \<and>
           last sent = Sse_error (Str_of (BuildError (exit_message ''build''
             (returncode (run w (docker_build_argv name (make_version (utcnow w))) None))))) \<and>
           registry st' = registry st \<and>
           started (host st) (host st') =
             started (host st) h1 @ [(docker_build_argv name (make_version (utcnow w)), None)] \<and>
           list_all (\<lambda>c. is_prefix_of [''git''] (fst c)) (started (host st) h1)"
proof -
  let ?v = "make_version (utcnow w)"
  let ?p = "run w (docker_build_argv name ?v) None"
  let ?h2 = "h1\<lparr>trace := trace h1 @ [(docker_build_argv name ?v, None)]\<rparr>"
  from checkout_workspace_git_only [of w name "host st"] assms(2)
  obtain cmds where cmds: "trace h1 = trace (host st) @ cmds"
      "list_all (\<lambda>c. is_prefix_of [''git''] (fst c)) cmds"
    by auto
  then have git: "list_all (\<lambda>c. is_prefix_of [''git''] (fst c)) (started (host st) h1)"
    by (simp add: started_def)
  have rb: "run_build w name ?v (host st) =
      (map Log ([banner ''Building '' (image_tag name ?v)] @ stdout ?p) @
         [Error (Str_of (BuildError (exit_message ''build'' (returncode ?p))))], ?h2)"
    using assms(2,3) by (simp add: run_build_def build_and_push_def subprocess_run_def Let_def)
  from build_app_outcome [OF assms(1) rb]
  have "build_app w name st =
      Some (Inr (map Sse_log ([banner ''Building '' (image_tag name ?v)] @ stdout ?p) @
                 [Sse_error (Str_of (BuildError (exit_message ''build'' (returncode ?p))))], None),
            \<lparr>registry = registry st, host = ?h2\<rparr>)"
    by simp
  moreover have "started (host st) ?h2 = started (host st) h1 @ [(docker_build_argv name ?v, None)]"
    using cmds(1) by (simp add: started_def)
  ultimately show ?thesis using git by simp
qed

theorem build_failure_changes_nothing_witness:
  "registry demo_state ''demo'' = Some demo_entry \<and>
   returncode (run (failing (is_prefix_of [''docker'', ''build''])) (docker_build_argv ''demo'' ''20260101.000000'') None) = 1 \<and>
   map_option fst (build_app (failing (is_prefix_of [''docker'', ''build''])) ''demo'' demo_state) =
     Some (Inr ([Sse_log (banner ''Building '' (image_tag ''demo'' ''20260101.000000'')),
                 Sse_error (Str_of (BuildError ''docker build failed (exit 1)''))], None)) \<and>
   map_option (registry \<circ> snd) (build_app (failing (is_prefix_of [''docker'', ''build''])) ''demo'' demo_state) =
     Some [''demo'' \<mapsto> demo_entry] \<and>
   map_option (started demo_host \<circ> host \<circ> snd) (build_app (failing (is_prefix_of [''docker'', ''build''])) ''demo'' demo_state) =
     Some [([''git'', ''-C'', workspace_path ''demo'', ''fetch'', ''origin''], None),
           ([''git'', ''-C'', workspace_path ''demo'', ''reset'', ''--hard'', ''origin/main''], None),
           (docker_build_argv ''demo'' ''20260101.000000'', None)]"
proof -
  let ?w = "failing (is_prefix_of [''docker'', ''build''])"
  let ?h1 = "demo_host\<lparr>trace :=
        [([''git'', ''-C'', workspace_path ''demo'', ''fetch'', ''origin''], None),
         ([''git'', ''-C'', workspace_path ''demo'', ''reset'', ''--hard'', ''origin/main''], None)]\<rparr>"
  have e: "registry demo_state ''demo'' = Some demo_entry"
    by (simp add: demo_state_simps)
  have co: "checkout_workspace ?w ''demo'' (host demo_state) = (Inr (), ?h1)"
    by (simp add: checkout_workspace_def demo_state_simps demo_host_def bare_host_def scaffolded_def git_defs
      failing_simps result_simps api_files_def is_prefix_of_def)
  have rc: "returncode (run ?w (docker_build_argv ''demo'' (make_version (utcnow ?w))) None) = 1"
    by (simp add: failing_simps result_simps is_prefix_of_def docker_build_argv_def)
  then have rc': "returncode (run ?w (docker_build_argv ''demo'' (make_version (utcnow ?w))) None) \<noteq> 0"
    by simp
  from build_failure_changes_nothing [OF e co rc']
  obtain sent st' where run: "build_app ?w ''demo'' demo_state = Some (Inr (sent, None), st')"
    and reg: "registry st' = registry demo_state"
    and tr: "started (host demo_state) (host st') =
             started (host demo_state) ?h1 @ [(docker_build_argv ''demo'' (make_version (utcnow ?w)), None)]"
    by blast
  have sent: "map_option fst (build_app ?w ''demo'' demo_state) =
     Some (Inr ([Sse_log (banner ''Building '' (image_tag ''demo'' ''20260101.000000'')),
                 Sse_error (Str_of (BuildError ''docker build failed (exit 1)''))], None))"
    by (simp add: build_app_def get_app_def demo_state_simps run_build_def build_and_push_def co [unfolded demo_state_simps]
      make_version_new_year subprocess_run_def failing_simps result_simps Let_def
      is_prefix_of_def docker_build_argv_def exit_message_def str_int_def
      str_nat.simps digit_def)
  from rc run reg tr sent show ?thesis
    by (simp add: demo_state_simps started_demo make_version_new_year failing_simps)
qed

section \<open>What every sequence of requests keeps\<close>

lemma make_version_nonempty: "make_version now \<noteq> []"
  by (simp add: make_version_def)

lemma entry_ok_new: "entry_ok (new_entry w n tmpl descr)"
  by (simp add: entry_ok_def new_entry_def null_or_nonempty_def)

lemma entry_ok_built:
  "entry_ok e \<Longrightarrow> v \<noteq> [] \<Longrightarrow> entry_ok (e\<lparr>preview_version := Some v, status := ''preview''\<rparr>)"
  by (simp add: entry_ok_def null_or_nonempty_def)

lemma entry_ok_published:
  "entry_ok e \<Longrightarrow> pv \<noteq> [] \<Longrightarrow>
   entry_ok (e\<lparr>prod_version := Some pv, rollback_version := prod_version e, status := ''published''\<rparr>)"
  by (simp add: entry_ok_def null_or_nonempty_def)

lemma entry_ok_rolled_back:
  "entry_ok e \<Longrightarrow> rollback_version e = Some rv \<Longrightarrow> rv \<noteq> [] \<Longrightarrow>
   entry_ok (e\<lparr>prod_version := Some rv, rollback_version := None\<rparr>)"
  by (auto simp add: entry_ok_def null_or_nonempty_def split: if_splits)

lemma registry_ok_update:
  "registry_ok reg \<Longrightarrow> entry_ok e \<Longrightarrow> registry_ok (reg(n \<mapsto> e))"
  by (simp add: registry_ok_def)

lemma create_app_registry:
  "registry (snd (create_app w raw_name tmpl descr st)) = registry st \<or>
   (\<exists>n. registry (snd (create_app w raw_name tmpl descr st)) =
      (registry st)(n \<mapsto> new_entry w n tmpl descr))"
proof (cases "run_all
                [create_namespace w (map (\<lambda>c. if c = CHR '' '' then CHR ''-'' else c) (py_lower w (py_strip w raw_name))),
                 grant_builder_access w (map (\<lambda>c. if c = CHR '' '' then CHR ''-'' else c) (py_lower w (py_strip w raw_name))),
                 create_env_configmap w (map (\<lambda>c. if c = CHR '' '' then CHR ''-'' else c) (py_lower w (py_strip w raw_name)))
                   [(''APP_NAME'', map (\<lambda>c. if c = CHR '' '' then CHR ''-'' else c) (py_lower w (py_strip w raw_name)))],
                 init_git_repo w (map (\<lambda>c. if c = CHR '' '' then CHR ''-'' else c) (py_lower w (py_strip w raw_name))),
                 scaffold_app w (map (\<lambda>c. if c = CHR '' '' then CHR ''-'' else c) (py_lower w (py_strip w raw_name))) tmpl]
                (host st)")
  case (Pair r h')
  then show ?thesis
    by (cases r) (auto simp add: create_app_def Let_def simp del: run_all.simps)
qed

lemma build_app_registry:
  assumes "build_app w name st = Some (r, st')"
  shows "registry st' = registry st \<or>
         (\<exists>e. registry st name = Some e \<and>
            registry st' = (registry st)(name \<mapsto>
              e\<lparr>preview_version := Some (make_version (utcnow w)), status := ''preview''\<rparr>))"
proof (cases "registry st name")
  case None
  with assms show ?thesis by (simp add: build_app_def get_app_def)
next
  case (Some e)
  let ?v = "make_version (utcnow w)"
  obtain queue h' where rb: "run_build w name ?v (host st) = (queue, h')"
    by (cases "run_build w name ?v (host st)")
  from run_build_shape [of w name ?v "host st"] rb
  obtain lines t where q: "queue = map Log lines @ [t]" and t: "t = Done ?v \<or> (\<exists>d. t = Error d)"
    by auto
  from t show ?thesis
  proof
    assume "t = Done ?v"
    with build_app_outcome [OF Some rb [unfolded q], of ?v] assms Some
    show ?thesis by auto
  next
    assume "\<exists>d. t = Error d"
    then obtain d where "t = Error d" ..
    with build_app_outcome [OF Some rb [unfolded q], of _ d] assms
    show ?thesis by auto
  qed
qed

lemma publish_app_registry:
  "registry (snd (publish_app w name st)) = registry st \<or>
   (\<exists>e pv. registry st name = Some e \<and> preview_version e = Some pv \<and> pv \<noteq> [] \<and>
      registry (snd (publish_app w name st)) = (registry st)(name \<mapsto>
        e\<lparr>prod_version := Some pv, rollback_version := prod_version e, status := ''published''\<rparr>))"
  by (simp add: publish_app_def get_app_def Let_def split: option.splits prod.splits sum.splits)

lemma rollback_app_registry:
  "registry (snd (rollback_app w name st)) = registry st \<or>
   (\<exists>e rv. registry st name = Some e \<and> rollback_version e = Some rv \<and> rv \<noteq> [] \<and>
      registry (snd (rollback_app w name st)) = (registry st)(name \<mapsto>
        e\<lparr>prod_version := Some rv, rollback_version := None\<rparr>))"
  by (simp add: rollback_app_def get_app_def Let_def split: option.splits prod.splits sum.splits)

lemma registry_ok_lookup: "registry_ok reg \<Longrightarrow> reg n = Some e \<Longrightarrow> entry_ok e"
  by (simp add: registry_ok_def)

lemma handle_keeps_registry_ok:
  assumes "handle r st = Some st'" and "registry_ok (registry st)"
  shows "registry_ok (registry st')"
proof (cases r)
  case (Create w raw_name tmpl descr)
  with assms(1) have st': "st' = snd (create_app w raw_name tmpl descr st)" by simp
  from create_app_registry [of w raw_name tmpl descr st] show ?thesis
  proof
    assume "registry (snd (create_app w raw_name tmpl descr st)) = registry st"
    with assms(2) st' show ?thesis by simp
  next
    assume "\<exists>n. registry (snd (create_app w raw_name tmpl descr st)) =
      (registry st)(n \<mapsto> new_entry w n tmpl descr)"
    then obtain n where "registry st' = (registry st)(n \<mapsto> new_entry w n tmpl descr)"
      unfolding st' ..
    with assms(2) show ?thesis by (simp add: registry_ok_update entry_ok_new)
  qed
next
  case (Build w name)
  with assms(1) obtain x where "build_app w name st = Some (x, st')" by auto
  from build_app_registry [OF this] show ?thesis
  proof
    assume "registry st' = registry st"
    with assms(2) show ?thesis by simp
  next
    assume "\<exists>e. registry st name = Some e \<and> registry st' = (registry st)(name \<mapsto>
              e\<lparr>preview_version := Some (make_version (utcnow w)), status := ''preview''\<rparr>)"
    then obtain e where e: "registry st name = Some e"
      and r: "registry st' = (registry st)(name \<mapsto>
              e\<lparr>preview_version := Some (make_version (utcnow w)), status := ''preview''\<rparr>)"
      by blast
    from registry_ok_lookup [OF assms(2) e]
    have "entry_ok (e\<lparr>preview_version := Some (make_version (utcnow w)), status := ''preview''\<rparr>)"
      by (rule entry_ok_built) (rule make_version_nonempty)
    with assms(2) r show ?thesis by (simp add: registry_ok_update)
  qed
next
  case (Publish w name)
  with assms(1) have st': "st' = snd (publish_app w name st)" by simp
  from publish_app_registry [of w name st] show ?thesis
  proof
    assume "registry (snd (publish_app w name st)) = registry st"
    with assms(2) st' show ?thesis by simp
  next
    assume "\<exists>e pv. registry st name = Some e \<and> preview_version e = Some pv \<and> pv \<noteq> [] \<and>
      registry (snd (publish_app w name st)) = (registry st)(name \<mapsto>
        e\<lparr>prod_version := Some pv, rollback_version := prod_version e, status := ''published''\<rparr>)"
    then obtain e pv where e: "registry st name = Some e" and pv: "pv \<noteq> []"
      and r: "registry st' = (registry st)(name \<mapsto>
        e\<lparr>prod_version := Some pv, rollback_version := prod_version e, status := ''published''\<rparr>)"
      unfolding st' by blast
    from registry_ok_lookup [OF assms(2) e] pv
    have "entry_ok (e\<lparr>prod_version := Some pv, rollback_version := prod_version e, status := ''published''\<rparr>)"
      by (rule entry_ok_published)
    with assms(2) r show ?thesis by (simp add: registry_ok_update)
  qed
next
  case (Rollback w name)
  with assms(1) have st': "st' = snd (rollback_app w name st)" by simp
  from rollback_app_registry [of w name st] show ?thesis
  proof
    assume "registry (snd (rollback_app w name st)) = registry st"
    with assms(2) st' show ?thesis by simp
  next
    assume "\<exists>e rv. registry st name = Some e \<and> rollback_version e = Some rv \<and> rv \<noteq> [] \<and>
      registry (snd (rollback_app w name st)) = (registry st)(name \<mapsto>
        e\<lparr>prod_version := Some rv, rollback_version := None\<rparr>)"
    then obtain e rv where e: "registry st name = Some e"
      and rv: "rollback_version e = Some rv" "rv \<noteq> []"
      and r: "registry st' = (registry st)(name \<mapsto>
        e\<lparr>prod_version := Some rv, rollback_version := None\<rparr>)"
      unfolding st' by blast
    from registry_ok_lookup [OF assms(2) e] rv
    have "entry_ok (e\<lparr>prod_version := Some rv, rollback_version := None\<rparr>)"
      by (rule entry_ok_rolled_back)
    with assms(2) r show ?thesis by (simp add: registry_ok_update)
  qed
qed

lemma handle_all_keeps_registry_ok:
  "handle_all rs st = Some st' \<Longrightarrow> registry_ok (registry st) \<Longrightarrow> registry_ok (registry st')"
proof (induction rs arbitrary: st)
  case Nil
  then show ?case by simp
next
  case (Cons r rs)
  then obtain st1 where h: "handle r st = Some st1" and rest: "handle_all rs st1 = Some st'"
    by (auto split: option.splits)
  from handle_keeps_registry_ok [OF h Cons.prems(2)] Cons.IH [OF rest] show ?case by simp
qed

lemma reachable_entry_ok:
  assumes "registry st0 = Map.empty" and "handle_all rs st0 = Some st" and "registry st name = Some e"
  shows "entry_ok e"
proof -
  from assms(1) have "registry_ok (registry st0)" by (simp add: registry_ok_def)
  from handle_all_keeps_registry_ok [OF assms(2) this] assms(3) show ?thesis
    by (simp add: registry_ok_def)
qed

lemma versions_never_empty:
  assumes "registry st0 = Map.empty" and "handle_all rs st0 = Some st" and "registry st name = Some e"
  shows "preview_version e \<noteq> Some [] \<and> prod_version e \<noteq> Some [] \<and> rollback_version e \<noteq> Some []"
  using reachable_entry_ok [OF assms]
  by (auto simp add: entry_ok_def null_or_nonempty_def)

subsection \<open>A run of create, build, publish and build again\<close>

lemma later_simps:
  "run later argv inp = quiet"
  "utcnow later = new_year\<lparr>hour := 1\<rparr>"
  by (simp_all add: later_def calm_def failing_def)

lemma make_version_later: "make_version (utcnow later) = ''20260101.010000''"
  by (simp add: later_simps make_version_def new_year_def zpad_def str_nat.simps digit_def)

lemma py_calm:
  "py_strip calm s = s" "py_lower calm s = s" "py_isidentifier calm s = (s \<noteq> [])"
  by (simp_all add: calm_def failing_def)

lemma create_demo:
  "\<exists>cmds. create_app calm ''demo'' ''simple-api'' ''a demo'' fresh =
     (Inr ''/app/demo'', \<lparr>registry = [''demo'' \<mapsto> demo_entry], host = demo_host\<lparr>trace := cmds\<rparr>\<rparr>)"
  by (simp add: create_app_def fresh_def py_calm VALID_TEMPLATES_def Let_def
      create_namespace_def grant_builder_access_def create_env_configmap_def kubectl_apply_eq
      kubectl_def init_git_repo_def scaffold_app_def bare_host_def git_defs calm_simps result_simps
      demo_entry_def demo_host_def scaffolded_def api_files_def)

lemma build_demo_host:
  assumes "\<And>argv inp. run w argv inp = quiet"
  shows "\<exists>sent cmds'. build_app w ''demo'' \<lparr>registry = [''demo'' \<mapsto> e], host = demo_host\<lparr>trace := cmds\<rparr>\<rparr> =
     Some (Inr (sent, None),
       \<lparr>registry = [''demo'' \<mapsto> e\<lparr>preview_version := Some (make_version (utcnow w)), status := ''preview''\<rparr>],
        host = demo_host\<lparr>trace := cmds'\<rparr>\<rparr>)"
proof -
  let ?v = "make_version (utcnow w)"
  let ?lines = "[banner ''Building '' (image_tag ''demo'' ?v), banner ''Pushing '' (image_tag ''demo'' ?v),
      banner ''Build complete: '' (image_tag ''demo'' ?v), ''=== Deploying to preview ==='' @ [CHR 0x0A]]"
  have "\<exists>cmds'. run_build w ''demo'' ?v (demo_host\<lparr>trace := cmds\<rparr>) =
      (map Log ?lines @ [Done ?v], demo_host\<lparr>trace := cmds'\<rparr>)"
    by (simp add: run_build_def build_and_push_def checkout_workspace_def demo_host_def bare_host_def
        scaffolded_def git_defs assms result_simps api_files_def k8s_eqs Let_def)
  then obtain cmds' where
    rb: "run_build w ''demo'' ?v
          (host \<lparr>registry = [''demo'' \<mapsto> e], host = demo_host\<lparr>trace := cmds\<rparr>\<rparr>) =
      (map Log ?lines @ [Done ?v], demo_host\<lparr>trace := cmds'\<rparr>)"
    by auto
  have e: "registry \<lparr>registry = [''demo'' \<mapsto> e], host = demo_host\<lparr>trace := cmds\<rparr>\<rparr> ''demo'' = Some e"
    by simp
  from build_app_outcome [OF e rb, of "make_version (utcnow w)"] show ?thesis
    by auto
qed

lemma publish_demo_host:
  assumes "\<And>argv inp. run w argv inp = quiet" and "preview_version e = Some pv" and "pv \<noteq> []"
  shows "\<exists>cmds'. publish_app w ''demo'' \<lparr>registry = [''demo'' \<mapsto> e], host = demo_host\<lparr>trace := cmds\<rparr>\<rparr> =
     (Inr (pv, app_url ''demo'' ''prod''),
       \<lparr>registry = [''demo'' \<mapsto> e\<lparr>prod_version := Some pv, rollback_version := prod_version e,
          status := ''published''\<rparr>],
        host = demo_host\<lparr>trace := cmds'\<rparr>\<rparr>)"
  using assms(2,3)
  by (auto simp add: publish_app_def get_app_def Let_def and_then_def k8s_eqs assms(1) result_simps)

lemma first_release_run:
  "\<exists>cmds. handle_all first_release fresh =
     Some \<lparr>registry = [''demo'' \<mapsto> demo_entry\<lparr>preview_version := Some ''20260101.000000'',
              prod_version := Some ''20260101.000000'', rollback_version := None, status := ''published''\<rparr>],
           host = demo_host\<lparr>trace := cmds\<rparr>\<rparr>"
proof -
  from create_demo obtain c1 where
    s1: "create_app calm ''demo'' ''simple-api'' ''a demo'' fresh =
     (Inr ''/app/demo'', \<lparr>registry = [''demo'' \<mapsto> demo_entry], host = demo_host\<lparr>trace := c1\<rparr>\<rparr>)" ..
  from build_demo_host [OF calm_simps(1), of demo_entry c1] obtain sent c2 where
    s2: "build_app calm ''demo'' \<lparr>registry = [''demo'' \<mapsto> demo_entry], host = demo_host\<lparr>trace := c1\<rparr>\<rparr> =
     Some (Inr (sent, None),
       \<lparr>registry = [''demo'' \<mapsto> demo_entry\<lparr>preview_version := Some ''20260101.000000'', status := ''preview''\<rparr>],
        host = demo_host\<lparr>trace := c2\<rparr>\<rparr>)"
    by (auto simp add: calm_simps(3) make_version_new_year)
  from publish_demo_host [OF calm_simps(1), of "demo_entry\<lparr>preview_version := Some ''20260101.000000'', status := ''preview''\<rparr>"
      "''20260101.000000''" c2]
  obtain c3 where
    s3: "publish_app calm ''demo''
       \<lparr>registry = [''demo'' \<mapsto> demo_entry\<lparr>preview_version := Some ''20260101.000000'', status := ''preview''\<rparr>],
        host = demo_host\<lparr>trace := c2\<rparr>\<rparr> =
     (Inr (''20260101.000000'', app_url ''demo'' ''prod''),
       \<lparr>registry = [''demo'' \<mapsto> demo_entry\<lparr>preview_version := Some ''20260101.000000'',
              prod_version := Some ''20260101.000000'', rollback_version := None, status := ''published''\<rparr>],
        host = demo_host\<lparr>trace := c3\<rparr>\<rparr>)"
    by (auto simp add: demo_entry_def new_entry_def)
  from s1 s2 s3 show ?thesis by (auto simp add: first_release_def)
qed

lemma handle_all_append:
  "handle_all (rs @ rs') st = (case handle_all rs st of None \<Rightarrow> None | Some st' \<Rightarrow> handle_all rs' st')"
  by (induction rs arbitrary: st) (simp_all split: option.splits)

text \<open>
  Claim C8, as amended. Starting from an empty registry, after any sequence of create,
  build, publish and rollback requests, an entry with a production version has the
  status published or the status preview: never the status created.
\<close>

theorem prod_version_only_after_build:
  assumes "registry st0 = Map.empty" and "handle_all rs st0 = Some st"
    and "registry st name = Some e" and "prod_version e \<noteq> None"
  shows "status e = ''published'' \<or> status e = ''preview''"
  using reachable_entry_ok [OF assms(1-3)] assms(4)
  by (auto simp add: entry_ok_def split: if_splits)

text \<open>
  The claim as stated fails after a release followed by one more build: the build writes
  the status preview and leaves the production version in place.
\<close>

theorem rebuild_after_publish_counterexample:
  "map_option (\<lambda>st. map_option (\<lambda>e. (prod_version e, status e)) (registry st ''demo''))
     (handle_all (first_release @ [Build later ''demo'']) fresh) =
   Some (Some (Some ''20260101.000000'', ''preview''))"
proof -
  from first_release_run obtain c3 where
    s3: "handle_all first_release fresh =
     Some \<lparr>registry = [''demo'' \<mapsto> demo_entry\<lparr>preview_version := Some ''20260101.000000'',
              prod_version := Some ''20260101.000000'', rollback_version := None, status := ''published''\<rparr>],
           host = demo_host\<lparr>trace := c3\<rparr>\<rparr>" ..
  from build_demo_host [OF later_simps(1), of "demo_entry\<lparr>preview_version := Some ''20260101.000000'',
              prod_version := Some ''20260101.000000'', rollback_version := None, status := ''published''\<rparr>" c3]
  obtain sent c4 where
    s4: "build_app later ''demo'' \<lparr>registry = [''demo'' \<mapsto> demo_entry\<lparr>preview_version := Some ''20260101.000000'',
              prod_version := Some ''20260101.000000'', rollback_version := None, status := ''published''\<rparr>],
           host = demo_host\<lparr>trace := c3\<rparr>\<rparr> =
     Some (Inr (sent, None),
       \<lparr>registry = [''demo'' \<mapsto> demo_entry\<lparr>preview_version := Some ''20260101.000000'',
              prod_version := Some ''20260101.000000'', rollback_version := None, status := ''published''\<rparr>
            \<lparr>preview_version := Some ''20260101.010000'', status := ''preview''\<rparr>],
        host = demo_host\<lparr>trace := c4\<rparr>\<rparr>)"
    by (auto simp add: make_version_later)
  from s3 s4 show ?thesis by (simp add: handle_all_append)
qed

theorem prod_version_only_after_build_witness:
  "registry fresh = Map.empty \<and>
   map_option (\<lambda>st. map_option (\<lambda>e. (prod_version e, status e)) (registry st ''demo''))
     (handle_all first_release fresh) = Some (Some (Some ''20260101.000000'', ''published''))"
proof -
  from first_release_run obtain c3 where
    s3: "handle_all first_release fresh =
     Some \<lparr>registry = [''demo'' \<mapsto> demo_entry\<lparr>preview_version := Some ''20260101.000000'',
              prod_version := Some ''20260101.000000'', rollback_version := None, status := ''published''\<rparr>],
           host = demo_host\<lparr>trace := c3\<rparr>\<rparr>" ..
  have f: "registry fresh = Map.empty" by (simp add: fresh_def)
  from prod_version_only_after_build [OF f s3, of "''demo''"] f s3
  show ?thesis by simp
qed

section \<open>Rollback\<close>

lemma rollback_app_effect:
  assumes "registry st name = Some e"
  shows "(\<forall>rv. rollback_version e = Some rv \<and> rv \<noteq> [] \<longrightarrow>
            started (host st) (host (snd (rollback_app w name st))) =
              kubectl_cmd (set_image_args name ''prod'' rv) #
              (if returncode (run w (''kubectl'' # set_image_args name ''prod'' rv) None) = 0
               then [kubectl_cmd (rollout_status_args name ''prod'' 90)] else []) \<and>
            (fst (rollback_app w name st) = Inr True \<longleftrightarrow>
               returncode (run w (''kubectl'' # set_image_args name ''prod'' rv) None) = 0 \<and>
               returncode (run w (''kubectl'' # rollout_status_args name ''prod'' 90) None) = 0) \<and>
            registry (snd (rollback_app w name st)) =
              (if fst (rollback_app w name st) = Inr True
               then (registry st)(name \<mapsto> e\<lparr>prod_version := Some rv, rollback_version := None\<rparr>)
               else registry st)) \<and>
         (rollback_version e = None \<longrightarrow>
            started (host st) (host (snd (rollback_app w name st))) =
              kubectl_cmd (rollout_undo_args name ''prod'') #
              (if returncode (run w (''kubectl'' # rollout_undo_args name ''prod'') None) = 0
               then [kubectl_cmd (rollout_status_args name ''prod'' 90)] else []) \<and>
            registry (snd (rollback_app w name st)) = registry st)"
  using assms
  by (simp add: rollback_app_def get_app_def and_then_def k8s_eqs started_def)

text \<open>
  Claim C4. For every application of a registry that a sequence of requests has
  produced: with a rollback version recorded, rollback sets the production image to it
  and waits for the rollout; the registry gets the rollback version as production
  version and no rollback version exactly when the response says ok, which is exactly
  when both commands succeed, and is untouched otherwise. With no rollback version,
  rollback asks the cluster to undo the last rollout and leaves the registry as it was,
  whatever the outcome.
\<close>

theorem rollback_app_restores:
  assumes "registry st0 = Map.empty" and "handle_all rs st0 = Some st"
    and "registry st name = Some e"
  shows "(\<forall>rv. rollback_version e = Some rv \<longrightarrow>
            started (host st) (host (snd (rollback_app w name st))) =
              kubectl_cmd (set_image_args name ''prod'' rv) #
              (if returncode (run w (''kubectl'' # set_image_args name ''prod'' rv) None) = 0
               then [kubectl_cmd (rollout_status_args name ''prod'' 90)] else []) \<and>
            (fst (rollback_app w name st) = Inr True \<longleftrightarrow>
               returncode (run w (''kubectl'' # set_image_args name ''prod'' rv) None) = 0 \<and>
               returncode (run w (''kubectl'' # rollout_status_args name ''prod'' 90) None) = 0) \<and>
            registry (snd (rollback_app w name st)) =
              (if fst (rollback_app w name st) = Inr True
               then (registry st)(name \<mapsto> e\<lparr>prod_version := Some rv, rollback_version := None\<rparr>)
               else registry st)) \<and>
         (rollback_version e = None \<longrightarrow>
            started (host st) (host (snd (rollback_app w name st))) =
              kubectl_cmd (rollout_undo_args name ''prod'') #
              (if returncode (run w (''kubectl'' # rollout_undo_args name ''prod'') None) = 0
               then [kubectl_cmd (rollout_status_args name ''prod'' 90)] else []) \<and>
            registry (snd (rollback_app w name st)) = registry st)"
proof -
  from versions_never_empty [OF assms] have "rollback_version e \<noteq> Some []" by simp
  then have "rollback_version e = Some rv \<Longrightarrow> rv \<noteq> []" for rv by auto
  with rollback_app_effect [OF assms(3), of w] show ?thesis by blast
qed

lemma second_release_run:
  "\<exists>cmds. handle_all (first_release @ [Build later ''demo'', Publish later ''demo'']) fresh =
     Some \<lparr>registry = [''demo'' \<mapsto> promoted_entry], host = demo_host\<lparr>trace := cmds\<rparr>\<rparr>"
proof -
  let ?e3 = "demo_entry\<lparr>preview_version := Some ''20260101.000000'',
              prod_version := Some ''20260101.000000'', rollback_version := None, status := ''published''\<rparr>"
  let ?e4 = "?e3\<lparr>preview_version := Some ''20260101.010000'', status := ''preview''\<rparr>"
  from first_release_run obtain c3 where
    s3: "handle_all first_release fresh =
     Some \<lparr>registry = [''demo'' \<mapsto> ?e3], host = demo_host\<lparr>trace := c3\<rparr>\<rparr>" ..
  from build_demo_host [OF later_simps(1), of ?e3 c3]
  obtain sent c4 where
    s4: "build_app later ''demo'' \<lparr>registry = [''demo'' \<mapsto> ?e3], host = demo_host\<lparr>trace := c3\<rparr>\<rparr> =
     Some (Inr (sent, None), \<lparr>registry = [''demo'' \<mapsto> ?e4], host = demo_host\<lparr>trace := c4\<rparr>\<rparr>)"
    by (auto simp add: make_version_later)
  from publish_demo_host [OF later_simps(1), of ?e4 "''20260101.010000''" c4]
  obtain c5 where
    s5: "publish_app later ''demo'' \<lparr>registry = [''demo'' \<mapsto> ?e4], host = demo_host\<lparr>trace := c4\<rparr>\<rparr> =
     (Inr (''20260101.010000'', app_url ''demo'' ''prod''),
       \<lparr>registry = [''demo'' \<mapsto> promoted_entry], host = demo_host\<lparr>trace := c5\<rparr>\<rparr>)"
    by (auto simp add: promoted_entry_def)
  from s3 s4 s5 show ?thesis by (auto simp add: handle_all_append)
qed

theorem rollback_app_restores_witness:
  "registry fresh = Map.empty \<and>
   map_option (\<lambda>st. map_option rollback_version (registry st ''demo''))
     (handle_all (first_release @ [Build later ''demo'', Publish later ''demo'']) fresh) =
     Some (Some (Some ''20260101.000000'')) \<and>
   map_option (\<lambda>st. (fst (rollback_app calm ''demo'' st),
        map_option (\<lambda>e. (prod_version e, rollback_version e)) (registry (snd (rollback_app calm ''demo'' st)) ''demo''),
        started (host st) (host (snd (rollback_app calm ''demo'' st)))))
     (handle_all (first_release @ [Build later ''demo'', Publish later ''demo'']) fresh) =
     Some (Inr True, Some (Some ''20260101.000000'', None),
       [kubectl_cmd (set_image_args ''demo'' ''prod'' ''20260101.000000''),
        kubectl_cmd (rollout_status_args ''demo'' ''prod'' 90)]) \<and>
   map_option (\<lambda>st. map_option rollback_version (registry st ''demo'')) (handle_all first_release fresh) =
     Some (Some None) \<and>
   map_option (\<lambda>st. (registry (snd (rollback_app calm ''demo'' st)) = registry st,
        started (host st) (host (snd (rollback_app calm ''demo'' st)))))
     (handle_all first_release fresh) =
     Some (True, [kubectl_cmd (rollout_undo_args ''demo'' ''prod''),
        kubectl_cmd (rollout_status_args ''demo'' ''prod'' 90)])"
proof -
  let ?e3 = "demo_entry\<lparr>preview_version := Some ''20260101.000000'',
              prod_version := Some ''20260101.000000'', rollback_version := None, status := ''published''\<rparr>"
  have f: "registry fresh = Map.empty" by (simp add: fresh_def)
  from second_release_run obtain c5 where
    s5: "handle_all (first_release @ [Build later ''demo'', Publish later ''demo'']) fresh =
     Some \<lparr>registry = [''demo'' \<mapsto> promoted_entry], host = demo_host\<lparr>trace := c5\<rparr>\<rparr>" ..
  from first_release_run obtain c3 where
    s3: "handle_all first_release fresh =
     Some \<lparr>registry = [''demo'' \<mapsto> ?e3], host = demo_host\<lparr>trace := c3\<rparr>\<rparr>" ..
  have rv: "rollback_version promoted_entry = Some ''20260101.000000''" "rollback_version ?e3 = None"
    by (simp_all add: promoted_entry_def)
  from rollback_app_restores [OF f s5, of "''demo''" promoted_entry calm]
    rollback_app_restores [OF f s3, of "''demo''" ?e3 calm] f s5 s3 rv
  show ?thesis
    by (simp add: calm_simps result_simps promoted_entry_def)
qed

section \<open>Scaffolding\<close>

lemma mkdir_rmtree: "mkdir name (rmtree name h) = mkdir name h"
  by (simp add: mkdir_def rmtree_def)

lemma write_items_eq:
  "write_items files g = g\<lparr>worktree := foldl (\<lambda>t (k, v). AList.update k v t) (worktree g) files\<rparr>"
  by (induction files arbitrary: g) (auto simp add: write_text_def)

text \<open>
  Claim C9, as amended. Scaffolding with a template that does not exist raises "Unknown
  template" and changes nothing. With a template that exists, a workspace directory
  that is already there is no error: scaffolding does exactly what it does when the
  directory is removed first, and whenever it succeeds the workspace holds the files of
  the template and nothing of the old directory.
\<close>

theorem scaffold_app_replaces_workspace:
  "(templates h tmpl = None \<longrightarrow>
      scaffold_app w name tmpl h = (Inl (ValueError (''Unknown template: '' @ tmpl)), h)) \<and>
   (\<forall>files. templates h tmpl = Some files \<longrightarrow>
      scaffold_app w name tmpl h = scaffold_app w name tmpl (rmtree name h) \<and>
      (\<forall>h'. scaffold_app w name tmpl h = (Inr (), h') \<longrightarrow>
         (\<exists>g. workspaces h' name = Some g \<and>
            worktree g = worktree (write_items files empty_dir))))"
proof (intro conjI impI allI)
  assume "templates h tmpl = None"
  then show "scaffold_app w name tmpl h = (Inl (ValueError (''Unknown template: '' @ tmpl)), h)"
    by (simp add: scaffold_app_def)
next
  fix files
  assume t: "templates h tmpl = Some files"
  have "templates (rmtree name h) tmpl = templates h tmpl" "workspaces (rmtree name h) name = None"
    by (simp_all add: rmtree_def)
  with t show "scaffold_app w name tmpl h = scaffold_app w name tmpl (rmtree name h)"
    by (auto simp add: scaffold_app_def mkdir_rmtree)
next
  fix files h'
  assume f: "templates h tmpl = Some files" and ok: "scaffold_app w name tmpl h = (Inr (), h')"
  from ok f show "\<exists>g. workspaces h' name = Some g \<and>
            worktree g = worktree (write_items files empty_dir)"
    by (auto simp add: scaffold_app_def git_def git_checked_def git_push_def in_repo_def git_init_def
        git_remote_add_def git_add_all_def git_commit_def subprocess_run_def and_then_def mkdir_def
        rmtree_def on_workspace_def empty_dir_def Let_def write_items_eq
        split: if_splits option.splits prod.splits sum.splits)
qed

lemma scaffold_stale:
  "\<exists>cmds. scaffold_app calm ''demo'' ''simple-api'' stale_host =
     (Inr (), demo_host\<lparr>trace := cmds\<rparr>)"
  by (simp add: scaffold_app_def stale_host_def bare_host_def git_defs calm_simps result_simps
      demo_host_def scaffolded_def api_files_def)

lemma get_workspace_files_demo: "get_workspace_files ''demo'' (demo_host\<lparr>trace := cmds\<rparr>) = api_files"
  by (simp add: get_workspace_files_def demo_host_def scaffolded_def api_files_def parts_def)

text \<open>
  The claim as stated fails on a left-over workspace: scaffolding succeeds there, and
  the old file is gone.
\<close>

theorem scaffold_over_existing_workspace_counterexample:
  "get_workspace_files ''demo'' stale_host = [(''old.txt'', ''x'')] \<and>
   fst (scaffold_app calm ''demo'' ''simple-api'' stale_host) = Inr () \<and>
   get_workspace_files ''demo'' (snd (scaffold_app calm ''demo'' ''simple-api'' stale_host)) = api_files"
proof -
  from scaffold_stale obtain cmds where
    "scaffold_app calm ''demo'' ''simple-api'' stale_host = (Inr (), demo_host\<lparr>trace := cmds\<rparr>)" ..
  then show ?thesis
    by (simp add: get_workspace_files_demo)
      (simp add: get_workspace_files_def stale_host_def empty_dir_def parts_def)
qed

theorem scaffold_app_replaces_workspace_witness:
  "templates stale_host ''nope'' = None \<and>
   scaffold_app calm ''demo'' ''nope'' stale_host = (Inl (ValueError ''Unknown template: nope''), stale_host) \<and>
   templates stale_host ''simple-api'' = Some api_files \<and>
   scaffold_app calm ''demo'' ''simple-api'' stale_host =
     scaffold_app calm ''demo'' ''simple-api'' (rmtree ''demo'' stale_host) \<and>
   fst (scaffold_app calm ''demo'' ''simple-api'' stale_host) = Inr () \<and>
   map_option worktree (workspaces (snd (scaffold_app calm ''demo'' ''simple-api'' stale_host)) ''demo'') =
     Some api_files"
proof -
  have t1: "templates stale_host ''nope'' = None" and t2: "templates stale_host ''simple-api'' = Some api_files"
    by (simp_all add: stale_host_def bare_host_def)
  from scaffold_stale obtain cmds where
    run: "scaffold_app calm ''demo'' ''simple-api'' stale_host = (Inr (), demo_host\<lparr>trace := cmds\<rparr>)" ..
  have w: "worktree (write_items api_files empty_dir) = api_files"
    by (simp add: api_files_def write_text_def empty_dir_def)
  from scaffold_app_replaces_workspace [of stale_host "''nope''" calm "''demo''"] t1
  have c2: "scaffold_app calm ''demo'' ''nope'' stale_host =
      (Inl (ValueError ''Unknown template: nope''), stale_host)"
    by simp
  note known = scaffold_app_replaces_workspace [of stale_host "''simple-api''" calm "''demo''"]
  from known t2
  have c4: "scaffold_app calm ''demo'' ''simple-api'' stale_host =
     scaffold_app calm ''demo'' ''simple-api'' (rmtree ''demo'' stale_host)"
    by blast
  from run have c5: "fst (scaffold_app calm ''demo'' ''simple-api'' stale_host) = Inr ()"
    by simp
  from known t2 run obtain g where
    "workspaces (demo_host\<lparr>trace := cmds\<rparr>) ''demo'' = Some g"
    "worktree g = worktree (write_items api_files empty_dir)"
    by blast
  with run w
  have c6: "map_option worktree (workspaces (snd (scaffold_app calm ''demo'' ''simple-api'' stale_host)) ''demo'') =
     Some api_files"
    by simp
  from t1 c2 t2 c4 c5 c6 show ?thesis by blast
qed

section \<open>Writing files into the workspace\<close>









end
